theory Spec2Isabelle
  imports Complex_Main
begin

section \<open>Greenlight: feature detection and baseline evaluation\<close>

text \<open>
  A shallow embedding of the core of the Greenlight compatibility checker: the baseline
  engine (\<open>BaselineEngine\<close>), the configuration loader (\<open>ConfigLoader\<close>), the
  suppression resolver and the matchers of the script and stylesheet parsers, and the
  aggregator (\<open>checkCompatibilityWithConfig\<close>).

  Libraries the repository calls but does not contain (the browserslist resolver, the Babel
  and PostCSS parsers, the file system, glob matching, \<open>JSON.parse\<close>) are collected in a
  record of functions, \<open>Env\<close>; a call that may throw returns an \<open>option\<close>.

  Modelling conventions.
  \<^item> Source strings are \<open>string\<close>s of 8-bit characters; the texts considered are ASCII.
  \<^item> A JavaScript number that comes out of \<open>parseFloat\<close>, \<open>parseInt\<close> or a division is
    a \<open>jsnum\<close>: \<open>NaN\<close>, an infinity or an exact rational; overflow to an infinity and
    rounding to a binary64 value are not modelled. Rounding is monotone, so it can only turn
    a strict inequality of two exact values into an equality of their roundings, and only for
    values closer than one part in \<open>2^52\<close>: version numbers are short decimals, and the
    coverage quotient is treated in the lemma \<open>rounding_keeps_threshold\<close> below.
  \<^item> An object used as a dictionary is an association list read with \<open>map_of\<close>, or a map.
    Keys inherited from \<open>Object.prototype\<close> are not modelled; the feature ids the matchers
    emit are fixed hyphenated identifiers, none of which is such a key.
\<close>

subsection \<open>JavaScript numbers and string primitives\<close>

datatype jsnum = NaN | PosInf | NegInf | Fin rat

text \<open>\<open>a <= b\<close> on numbers: false as soon as one side is \<open>NaN\<close>.\<close>

fun js_le :: "jsnum \<Rightarrow> jsnum \<Rightarrow> bool" where
  "js_le NaN _ = False"
| "js_le _ NaN = False"
| "js_le NegInf _ = True"
| "js_le _ PosInf = True"
| "js_le PosInf _ = False"
| "js_le _ NegInf = False"
| "js_le (Fin a) (Fin b) = (a \<le> b)"

definition js_ge :: "jsnum \<Rightarrow> jsnum \<Rightarrow> bool" where
  "js_ge a b = js_le b a"

text \<open>\<open>s / n\<close> for two counters (non-negative integers): \<open>0 / 0\<close> is \<open>NaN\<close>.\<close>

definition js_div_count :: "nat \<Rightarrow> nat \<Rightarrow> jsnum" where
  "js_div_count s n =
     (if n = 0 then (if s = 0 then NaN else PosInf) else Fin (rat_of_nat s / rat_of_nat n))"

text \<open>
  White space, for \<open>trim\<close> and the number parsers: the six ASCII characters. The Unicode
  spaces beyond ASCII that the language also strips are not modelled.
\<close>

definition isWhiteSpace :: "char \<Rightarrow> bool" where
  "isWhiteSpace c = (c \<in> set [CHR '' '', CHR 0x09, CHR 0x0A, CHR 0x0B, CHR 0x0C, CHR 0x0D])"

definition trimStart :: "string \<Rightarrow> string" where
  "trimStart s = dropWhile isWhiteSpace s"

definition trim :: "string \<Rightarrow> string" where
  "trim s = rev (dropWhile isWhiteSpace (rev (dropWhile isWhiteSpace s)))"

fun startsWith :: "string \<Rightarrow> string \<Rightarrow> bool" where
  "startsWith s [] = True"
| "startsWith [] (p # ps) = False"
| "startsWith (c # cs) (p # ps) = (c = p \<and> startsWith cs ps)"

definition endsWith :: "string \<Rightarrow> string \<Rightarrow> bool" where
  "endsWith s p = startsWith (rev s) (rev p)"

fun includesStr :: "string \<Rightarrow> string \<Rightarrow> bool" where
  "includesStr [] p = (p = [])"
| "includesStr (c # cs) p = (startsWith (c # cs) p \<or> includesStr cs p)"

text \<open>\<open>s.split(c)\<close> for a one-character separator; the result is never empty.\<close>

fun split :: "string \<Rightarrow> char \<Rightarrow> string list" where
  "split [] sep = [] # []"
| "split (c # cs) sep =
     (if c = sep then [] # split cs sep
      else (case split cs sep of [] \<Rightarrow> [c] # [] | w # ws \<Rightarrow> (c # w) # ws))"

definition digitTable :: "(char \<times> nat) list" where
  "digitTable =
     [(CHR ''0'', 0), (CHR ''1'', 1), (CHR ''2'', 2), (CHR ''3'', 3), (CHR ''4'', 4),
      (CHR ''5'', 5), (CHR ''6'', 6), (CHR ''7'', 7), (CHR ''8'', 8), (CHR ''9'', 9),
      (CHR ''a'', 10), (CHR ''b'', 11), (CHR ''c'', 12), (CHR ''d'', 13), (CHR ''e'', 14),
      (CHR ''f'', 15), (CHR ''A'', 10), (CHR ''B'', 11), (CHR ''C'', 12), (CHR ''D'', 13),
      (CHR ''E'', 14), (CHR ''F'', 15)]"

definition isDigitIn :: "nat \<Rightarrow> char \<Rightarrow> bool" where
  "isDigitIn radix c = (case map_of digitTable c of None \<Rightarrow> False | Some d \<Rightarrow> d < radix)"

definition digitValue :: "char \<Rightarrow> nat" where
  "digitValue c = (case map_of digitTable c of None \<Rightarrow> 0 | Some d \<Rightarrow> d)"

definition digitsValue :: "nat \<Rightarrow> string \<Rightarrow> nat" where
  "digitsValue radix ds = foldl (\<lambda>acc c. radix * acc + digitValue c) 0 ds"

text \<open>An optional sign in front of a literal: the sign (\<open>1\<close> or \<open>-1\<close>) and the rest.\<close>

fun takeSign :: "string \<Rightarrow> int \<times> string" where
  "takeSign (c # cs) =
     (if c = CHR ''+'' then (1, cs) else if c = CHR ''-'' then (-1, cs) else (1, c # cs))"
| "takeSign [] = (1, [])"

text \<open>
  \<open>parseInt(s)\<close> with no radix: leading white space, a sign, a \<open>0x\<close> prefix for radix 16,
  then the longest run of digits; \<open>NaN\<close> when there is none. \<open>None\<close> is \<open>undefined\<close>,
  which reads as the text \<open>undefined\<close> and gives \<open>NaN\<close>.
\<close>

definition parseInt :: "string option \<Rightarrow> jsnum" where
  "parseInt arg =
     (case arg of
        None \<Rightarrow> NaN
      | Some s \<Rightarrow>
          (let (sign, u) = takeSign (trimStart s);
               hex = (startsWith u ''0x'' \<or> startsWith u ''0X'');
               radix = (if hex then 16 else 10);
               body = (if hex then drop 2 u else u);
               ds = takeWhile (isDigitIn radix) body
           in if ds = [] then NaN else Fin (of_int (sign * int (digitsValue radix ds)))))"

text \<open>
  \<open>parseFloat(s)\<close>: leading white space, then the longest prefix that is a decimal literal
  (a sign, \<open>Infinity\<close>, or digits with an optional fraction and an optional exponent);
  \<open>NaN\<close> when there is none.
\<close>

definition exponentPart :: "string \<Rightarrow> int" where
  "exponentPart r =
     (case r of
        [] \<Rightarrow> 0
      | c # cs \<Rightarrow>
          (if c = CHR ''e'' \<or> c = CHR ''E'' then
             (let (esign, r') = takeSign cs; ed = takeWhile (isDigitIn 10) r'
              in if ed = [] then 0 else esign * int (digitsValue 10 ed))
           else 0))"

definition scale10 :: "rat \<Rightarrow> int \<Rightarrow> rat" where
  "scale10 x e = (if 0 \<le> e then x * 10 ^ nat e else x / 10 ^ nat (- e))"

definition parseFloat :: "string option \<Rightarrow> jsnum" where
  "parseFloat arg =
     (case arg of
        None \<Rightarrow> NaN
      | Some s \<Rightarrow>
          (let (sign, u) = takeSign (trimStart s) in
           if startsWith u ''Infinity'' then (if sign = 1 then PosInf else NegInf)
           else
             (let ip = takeWhile (isDigitIn 10) u;
                  r1 = dropWhile (isDigitIn 10) u;
                  (fp, r2) = (case r1 of
                                [] \<Rightarrow> ([], r1)
                              | c # cs \<Rightarrow>
                                  (if c = CHR ''.''
                                   then (takeWhile (isDigitIn 10) cs, dropWhile (isDigitIn 10) cs)
                                   else ([], r1)))
              in if ip = [] \<and> fp = [] then NaN
                 else Fin (of_int sign *
                        scale10 (rat_of_nat (digitsValue 10 ip)
                                 + rat_of_nat (digitsValue 10 fp) / 10 ^ length fp)
                                (exponentPart r2)))))"

subsection \<open>The feature catalog\<close>

text \<open>
  \<open>baselineFeatures\<close> and \<open>webFeaturesData\<close> are the two tables of the catalog, in the
  order of the source. The display fields \<open>name\<close> and \<open>description\<close>, which no function
  of the core reads, are left out.
\<close>

datatype Status = Widely | Newly | Limited

datatype Severity = Error | Warning | Info

record BaselineInfo =
  status :: Status
  since :: "string option"

record WebFeature =
  wf_id :: string
  wf_baseline :: BaselineInfo
  browser_support :: "(string \<times> string) list"
  mdn_url :: "string option"

definition baselineFeatures :: "(string \<times> BaselineInfo) list" where
  "baselineFeatures =
     [(''fetch'', \<lparr> status = Widely, since = Some ''2017-03'' \<rparr>),
      (''promises'', \<lparr> status = Widely, since = Some ''2016-03'' \<rparr>),
      (''arrow-functions'', \<lparr> status = Widely, since = Some ''2016-03'' \<rparr>),
      (''let-const'', \<lparr> status = Widely, since = Some ''2016-03'' \<rparr>),
      (''template-literals'', \<lparr> status = Widely, since = Some ''2016-03'' \<rparr>),
      (''optional-chaining'', \<lparr> status = Newly, since = Some ''2022-03'' \<rparr>),
      (''nullish-coalescing'', \<lparr> status = Newly, since = Some ''2022-03'' \<rparr>),
      (''array-flat'', \<lparr> status = Newly, since = Some ''2022-03'' \<rparr>),
      (''array-flatmap'', \<lparr> status = Newly, since = Some ''2022-03'' \<rparr>),
      (''object-fromentries'', \<lparr> status = Newly, since = Some ''2022-03'' \<rparr>),
      (''string-matchall'', \<lparr> status = Newly, since = Some ''2022-03'' \<rparr>),
      (''intersection-observer'', \<lparr> status = Newly, since = Some ''2022-03'' \<rparr>),
      (''resize-observer'', \<lparr> status = Newly, since = Some ''2023-03'' \<rparr>),
      (''clipboard-api'', \<lparr> status = Limited, since = None \<rparr>),
      (''file-system-access'', \<lparr> status = Limited, since = None \<rparr>),
      (''web-share'', \<lparr> status = Limited, since = None \<rparr>),
      (''view-transitions'', \<lparr> status = Limited, since = None \<rparr>),
      (''web-locks'', \<lparr> status = Limited, since = None \<rparr>),
      (''broadcast-channel'', \<lparr> status = Newly, since = Some ''2022-03'' \<rparr>),
      (''css-grid'', \<lparr> status = Widely, since = Some ''2020-03'' \<rparr>),
      (''css-flexbox'', \<lparr> status = Widely, since = Some ''2017-03'' \<rparr>),
      (''css-variables'', \<lparr> status = Widely, since = Some ''2020-03'' \<rparr>),
      (''css-has-selector'', \<lparr> status = Newly, since = Some ''2023-12'' \<rparr>),
      (''css-focus-visible'', \<lparr> status = Newly, since = Some ''2023-03'' \<rparr>),
      (''css-focus-within'', \<lparr> status = Newly, since = Some ''2022-03'' \<rparr>),
      (''css-is-selector'', \<lparr> status = Newly, since = Some ''2023-03'' \<rparr>),
      (''css-where-selector'', \<lparr> status = Newly, since = Some ''2023-03'' \<rparr>),
      (''css-container-queries'', \<lparr> status = Newly, since = Some ''2023-02'' \<rparr>),
      (''css-aspect-ratio'', \<lparr> status = Newly, since = Some ''2022-03'' \<rparr>),
      (''css-gap'', \<lparr> status = Newly, since = Some ''2022-03'' \<rparr>),
      (''css-backdrop-filter'', \<lparr> status = Newly, since = Some ''2022-03'' \<rparr>),
      (''css-scroll-behavior'', \<lparr> status = Newly, since = Some ''2022-03'' \<rparr>),
      (''css-accent-color'', \<lparr> status = Newly, since = Some ''2022-03'' \<rparr>),
      (''css-oklch-color'', \<lparr> status = Limited, since = None \<rparr>),
      (''css-oklab-color'', \<lparr> status = Limited, since = None \<rparr>),
      (''css-color-mix'', \<lparr> status = Limited, since = None \<rparr>),
      (''css-relative-colors'', \<lparr> status = Limited, since = None \<rparr>),
      (''css-subgrid'', \<lparr> status = Limited, since = None \<rparr>),
      (''css-cascade-layers'', \<lparr> status = Limited, since = None \<rparr>),
      (''dialog-element'', \<lparr> status = Newly, since = Some ''2022-03'' \<rparr>),
      (''details-element'', \<lparr> status = Widely, since = Some ''2020-03'' \<rparr>),
      (''bigint'', \<lparr> status = Newly, since = Some ''2022-03'' \<rparr>),
      (''dynamic-import'', \<lparr> status = Newly, since = Some ''2022-03'' \<rparr>),
      (''top-level-await'', \<lparr> status = Newly, since = Some ''2023-03'' \<rparr>),
      (''private-fields'', \<lparr> status = Newly, since = Some ''2022-03'' \<rparr>),
      (''array-at'', \<lparr> status = Newly, since = Some ''2022-03'' \<rparr>)]"

definition webFeaturesData :: "(string \<times> WebFeature) list" where
  "webFeaturesData =
     [(''css-has-selector'',
       \<lparr> wf_id = ''css-has-selector'', wf_baseline = \<lparr> status = Newly, since = Some ''2023-12'' \<rparr>,
         browser_support = [(''chrome'', ''105''), (''firefox'', ''121''), (''safari'', ''15.4'')],
         mdn_url = Some ''https://developer.mozilla.org/en-US/docs/Web/CSS/:has'' \<rparr>),
      (''css-focus-visible'',
       \<lparr> wf_id = ''css-focus-visible'', wf_baseline = \<lparr> status = Newly, since = Some ''2023-03'' \<rparr>,
         browser_support = [(''chrome'', ''86''), (''firefox'', ''85''), (''safari'', ''15.4'')],
         mdn_url = Some ''https://developer.mozilla.org/en-US/docs/Web/CSS/:focus-visible'' \<rparr>),
      (''clipboard-api'',
       \<lparr> wf_id = ''clipboard-api'', wf_baseline = \<lparr> status = Limited, since = None \<rparr>,
         browser_support = [(''chrome'', ''76''), (''firefox'', ''127''), (''safari'', ''13.1'')],
         mdn_url = Some ''https://developer.mozilla.org/en-US/docs/Web/API/Clipboard_API'' \<rparr>),
      (''file-system-access'',
       \<lparr> wf_id = ''file-system-access'', wf_baseline = \<lparr> status = Limited, since = None \<rparr>,
         browser_support = [(''chrome'', ''86''), (''edge'', ''86'')],
         mdn_url = Some ''https://developer.mozilla.org/en-US/docs/Web/API/File_System_Access_API'' \<rparr>),
      (''view-transitions'',
       \<lparr> wf_id = ''view-transitions'', wf_baseline = \<lparr> status = Limited, since = None \<rparr>,
         browser_support = [(''chrome'', ''111'')],
         mdn_url = Some ''https://developer.mozilla.org/en-US/docs/Web/API/View_Transitions_API'' \<rparr>),
      (''web-share'',
       \<lparr> wf_id = ''web-share'', wf_baseline = \<lparr> status = Limited, since = None \<rparr>,
         browser_support = [(''chrome'', ''89''), (''safari'', ''14'')],
         mdn_url = Some ''https://developer.mozilla.org/en-US/docs/Web/API/Web_Share_API'' \<rparr>),
      (''dialog-element'',
       \<lparr> wf_id = ''dialog-element'', wf_baseline = \<lparr> status = Newly, since = Some ''2022-03'' \<rparr>,
         browser_support = [(''chrome'', ''37''), (''firefox'', ''98''), (''safari'', ''15.4'')],
         mdn_url = Some ''https://developer.mozilla.org/en-US/docs/Web/HTML/Element/dialog'' \<rparr>),
      (''css-container-queries'',
       \<lparr> wf_id = ''css-container-queries'', wf_baseline = \<lparr> status = Newly, since = Some ''2023-02'' \<rparr>,
         browser_support = [(''chrome'', ''105''), (''firefox'', ''110''), (''safari'', ''16'')],
         mdn_url = Some ''https://developer.mozilla.org/en-US/docs/Web/CSS/CSS_Container_Queries'' \<rparr>),
      (''css-oklch-color'',
       \<lparr> wf_id = ''css-oklch-color'', wf_baseline = \<lparr> status = Newly, since = Some ''2023-08'' \<rparr>,
         browser_support = [(''chrome'', ''111''), (''firefox'', ''113''), (''safari'', ''15.4'')],
         mdn_url = Some ''https://developer.mozilla.org/en-US/docs/Web/CSS/color_value/oklch'' \<rparr>),
      (''css-color-mix'',
       \<lparr> wf_id = ''css-color-mix'', wf_baseline = \<lparr> status = Newly, since = Some ''2023-06'' \<rparr>,
         browser_support = [(''chrome'', ''111''), (''firefox'', ''113''), (''safari'', ''16.2'')],
         mdn_url = Some ''https://developer.mozilla.org/en-US/docs/Web/CSS/color_value/color-mix'' \<rparr>),
      (''css-accent-color'',
       \<lparr> wf_id = ''css-accent-color'', wf_baseline = \<lparr> status = Newly, since = Some ''2022-03'' \<rparr>,
         browser_support = [(''chrome'', ''93''), (''firefox'', ''92''), (''safari'', ''15.4'')],
         mdn_url = Some ''https://developer.mozilla.org/en-US/docs/Web/CSS/accent-color'' \<rparr>),
      (''css-backdrop-filter'',
       \<lparr> wf_id = ''css-backdrop-filter'', wf_baseline = \<lparr> status = Newly, since = Some ''2022-03'' \<rparr>,
         browser_support = [(''chrome'', ''76''), (''firefox'', ''103''), (''safari'', ''9'')],
         mdn_url = Some ''https://developer.mozilla.org/en-US/docs/Web/CSS/backdrop-filter'' \<rparr>),
      (''css-scroll-behavior'',
       \<lparr> wf_id = ''css-scroll-behavior'', wf_baseline = \<lparr> status = Newly, since = Some ''2022-03'' \<rparr>,
         browser_support = [(''chrome'', ''61''), (''firefox'', ''36''), (''safari'', ''15.4'')],
         mdn_url = Some ''https://developer.mozilla.org/en-US/docs/Web/CSS/scroll-behavior'' \<rparr>),
      (''intersection-observer'',
       \<lparr> wf_id = ''intersection-observer'', wf_baseline = \<lparr> status = Newly, since = Some ''2022-03'' \<rparr>,
         browser_support = [(''chrome'', ''51''), (''firefox'', ''55''), (''safari'', ''12.1'')],
         mdn_url = Some ''https://developer.mozilla.org/en-US/docs/Web/API/Intersection_Observer_API'' \<rparr>),
      (''resize-observer'',
       \<lparr> wf_id = ''resize-observer'', wf_baseline = \<lparr> status = Newly, since = Some ''2023-03'' \<rparr>,
         browser_support = [(''chrome'', ''64''), (''firefox'', ''69''), (''safari'', ''13.1'')],
         mdn_url = Some ''https://developer.mozilla.org/en-US/docs/Web/API/Resize_Observer_API'' \<rparr>),
      (''broadcast-channel'',
       \<lparr> wf_id = ''broadcast-channel'', wf_baseline = \<lparr> status = Newly, since = Some ''2022-03'' \<rparr>,
         browser_support = [(''chrome'', ''54''), (''firefox'', ''38''), (''safari'', ''15.4'')],
         mdn_url = Some ''https://developer.mozilla.org/en-US/docs/Web/API/Broadcast_Channel_API'' \<rparr>),
      (''array-flat'',
       \<lparr> wf_id = ''array-flat'', wf_baseline = \<lparr> status = Newly, since = Some ''2022-03'' \<rparr>,
         browser_support = [(''chrome'', ''69''), (''firefox'', ''62''), (''safari'', ''12'')],
         mdn_url = Some ''https://developer.mozilla.org/en-US/docs/Web/JavaScript/Reference/Global_Objects/Array/flat'' \<rparr>),
      (''array-flatmap'',
       \<lparr> wf_id = ''array-flatmap'', wf_baseline = \<lparr> status = Newly, since = Some ''2022-03'' \<rparr>,
         browser_support = [(''chrome'', ''69''), (''firefox'', ''62''), (''safari'', ''12'')],
         mdn_url = Some ''https://developer.mozilla.org/en-US/docs/Web/JavaScript/Reference/Global_Objects/Array/flatMap'' \<rparr>),
      (''object-fromentries'',
       \<lparr> wf_id = ''object-fromentries'', wf_baseline = \<lparr> status = Newly, since = Some ''2022-03'' \<rparr>,
         browser_support = [(''chrome'', ''73''), (''firefox'', ''63''), (''safari'', ''12.1'')],
         mdn_url = Some ''https://developer.mozilla.org/en-US/docs/Web/JavaScript/Reference/Global_Objects/Object/fromEntries'' \<rparr>),
      (''string-matchall'',
       \<lparr> wf_id = ''string-matchall'', wf_baseline = \<lparr> status = Newly, since = Some ''2022-03'' \<rparr>,
         browser_support = [(''chrome'', ''73''), (''firefox'', ''67''), (''safari'', ''13'')],
         mdn_url = Some ''https://developer.mozilla.org/en-US/docs/Web/JavaScript/Reference/Global_Objects/String/matchAll'' \<rparr>),
      (''bigint'',
       \<lparr> wf_id = ''bigint'', wf_baseline = \<lparr> status = Newly, since = Some ''2022-03'' \<rparr>,
         browser_support = [(''chrome'', ''67''), (''firefox'', ''68''), (''safari'', ''14'')],
         mdn_url = Some ''https://developer.mozilla.org/en-US/docs/Web/JavaScript/Reference/Global_Objects/BigInt'' \<rparr>),
      (''globalthis'',
       \<lparr> wf_id = ''globalthis'', wf_baseline = \<lparr> status = Newly, since = Some ''2022-03'' \<rparr>,
         browser_support = [(''chrome'', ''71''), (''firefox'', ''65''), (''safari'', ''12.1'')],
         mdn_url = Some ''https://developer.mozilla.org/en-US/docs/Web/JavaScript/Reference/Global_Objects/globalThis'' \<rparr>),
      (''array-at'',
       \<lparr> wf_id = ''array-at'', wf_baseline = \<lparr> status = Newly, since = Some ''2022-03'' \<rparr>,
         browser_support = [(''chrome'', ''92''), (''firefox'', ''90''), (''safari'', ''15.4'')],
         mdn_url = Some ''https://developer.mozilla.org/en-US/docs/Web/JavaScript/Reference/Global_Objects/Array/at'' \<rparr>)]"

definition statusString :: "Status \<Rightarrow> string" where
  "statusString s = (case s of Widely \<Rightarrow> ''widely'' | Newly \<Rightarrow> ''newly'' | Limited \<Rightarrow> ''limited'')"

subsection \<open>The baseline engine\<close>

datatype TargetYear = Y2024 | Y2025 | Custom

definition yearString :: "TargetYear \<Rightarrow> string" where
  "yearString y = (case y of Y2024 \<Rightarrow> ''2024'' | Y2025 \<Rightarrow> ''2025'' | Custom \<Rightarrow> ''custom'')"

record BaselineTarget =
  year :: TargetYear
  customBrowserslist :: "string list option"

text \<open>
  The browserslist library: a list of queries resolves to a list of texts
  \<open>engine version\<close>, or the call throws (\<open>None\<close>).
\<close>

type_synonym Browserslist = "string list \<Rightarrow> string list option"

definition normalizeBrowserName :: "string \<Rightarrow> string" where
  "normalizeBrowserName browserName =
     (case map_of
        [(''chrome'', ''chrome''), (''firefox'', ''firefox''), (''safari'', ''safari''),
         (''edge'', ''edge''), (''and_chr'', ''chrome''), (''and_ff'', ''firefox''),
         (''ios_saf'', ''safari''), (''ie'', ''ie'')] browserName of
        Some n \<Rightarrow> (if n = [] then browserName else n)
      | None \<Rightarrow> browserName)"

definition getDefaultBrowserslistForYear :: "TargetYear \<Rightarrow> string list" where
  "getDefaultBrowserslistForYear y =
     (case y of
        Y2025 \<Rightarrow> [''chrome >= 109'', ''firefox >= 109'', ''safari >= 16.4'', ''edge >= 109'']
      | _ \<Rightarrow> [''chrome >= 105'', ''firefox >= 105'', ''safari >= 15.4'', ''edge >= 105''])"

text \<open>
  The body of the loop of \<open>calculateBrowserslistCoverage\<close> for one resolved entry: whether
  the counter \<open>supportedBrowsers\<close> is incremented.
\<close>

definition browserSupported :: "WebFeature \<Rightarrow> string \<Rightarrow> bool" where
  "browserSupported webFeature browser =
     (let parts = split browser (CHR '' '');
          browserName = (case parts of [] \<Rightarrow> [] | n # _ \<Rightarrow> n);
          version = (case parts of _ # v # _ \<Rightarrow> Some v | _ \<Rightarrow> None);
          requiredVersion = parseFloat version;
          normalizedBrowserName = normalizeBrowserName browserName
      in case map_of (browser_support webFeature) normalizedBrowserName of
           None \<Rightarrow> False
         | Some featureSupportVersion \<Rightarrow>
             featureSupportVersion \<noteq> [] \<and>
             js_le (parseFloat (Some featureSupportVersion)) requiredVersion)"

fun countSupported :: "WebFeature \<Rightarrow> string list \<Rightarrow> nat \<Rightarrow> nat" where
  "countSupported webFeature [] supportedBrowsers = supportedBrowsers"
| "countSupported webFeature (browser # browsers) supportedBrowsers =
     countSupported webFeature browsers
       (if browserSupported webFeature browser then supportedBrowsers + 1 else supportedBrowsers)"

definition calculateBrowserslistCoverage :: "Browserslist \<Rightarrow> string \<Rightarrow> string list \<Rightarrow> bool" where
  "calculateBrowserslistCoverage bl featureId browserslistQuery =
     (case map_of webFeaturesData featureId of
        None \<Rightarrow> False
      | Some webFeature \<Rightarrow>
          (case bl browserslistQuery of
             None \<Rightarrow> False
           | Some browsers \<Rightarrow>
               (let supportedBrowsers = countSupported webFeature browsers 0;
                    totalBrowsers = length browsers;
                    coverage = js_div_count supportedBrowsers totalBrowsers
                in js_ge coverage (Fin (95 / 100)))))"

text \<open>\<open>baselineData || webFeature?.baseline\<close>: the first table wins.\<close>

definition lookupFeature :: "string \<Rightarrow> BaselineInfo option" where
  "lookupFeature featureId =
     (case map_of baselineFeatures featureId of
        Some baselineData \<Rightarrow> Some baselineData
      | None \<Rightarrow> map_option wf_baseline (map_of webFeaturesData featureId))"

definition isFeatureBaseline :: "Browserslist \<Rightarrow> BaselineTarget \<Rightarrow> string \<Rightarrow> bool" where
  "isFeatureBaseline bl target featureId =
     (let baselineData = map_of baselineFeatures featureId;
          webFeature = map_of webFeaturesData featureId
      in if baselineData = None \<and> webFeature = None then False
         else
           (case lookupFeature featureId of
              None \<Rightarrow> False
            | Some feature \<Rightarrow>
                if status feature = Widely then True
                else
                  (case (year target, customBrowserslist target) of
                     (Custom, Some query) \<Rightarrow> calculateBrowserslistCoverage bl featureId query
                   | _ \<Rightarrow>
                       (case (status feature, since feature) of
                          (Newly, Some sinceText) \<Rightarrow>
                            if sinceText = [] then False
                            else
                              (let featureYear =
                                     parseInt (case split sinceText (CHR ''-'') of
                                                 [] \<Rightarrow> None | y # _ \<Rightarrow> Some y);
                                   targetYear = parseInt (Some (yearString (year target)));
                                   yearBaseline = js_le featureYear targetYear
                               in if yearBaseline \<and> webFeature \<noteq> None \<and> year target \<noteq> Custom
                                  then calculateBrowserslistCoverage bl featureId
                                         (getDefaultBrowserslistForYear (year target))
                                  else yearBaseline)
                        | _ \<Rightarrow> False))))"

definition getSeverityForFeature :: "string \<Rightarrow> Severity" where
  "getSeverityForFeature featureId =
     (case lookupFeature featureId of
        None \<Rightarrow> Warning
      | Some feature \<Rightarrow>
          (case status feature of Limited \<Rightarrow> Error | Newly \<Rightarrow> Warning | Widely \<Rightarrow> Info))"

definition getBaselineMessage :: "string \<Rightarrow> string" where
  "getBaselineMessage featureId =
     (case lookupFeature featureId of
        None \<Rightarrow> ''Unknown baseline status''
      | Some feature \<Rightarrow>
          (case status feature of
             Limited \<Rightarrow> ''Limited browser support - use with caution or provide fallbacks''
           | Newly \<Rightarrow>
               (case since feature of
                  None \<Rightarrow> ''Newly supported - consider your browser targets''
                | Some s \<Rightarrow>
                    if s = [] then ''Newly supported - consider your browser targets''
                    else ''Newly supported since '' @ s @ '' - consider your browser targets'')
           | Widely \<Rightarrow> ''Widely supported across browsers''))"

subsection \<open>Diagnostics\<close>

record CompatibilityFix =
  fix_type :: string
  fix_description :: string
  fix_url :: "string option"

text \<open>
  \<open>CompatibilityResult\<close>: an occurrence, and after the aggregator a diagnostic (the fields
  \<open>file\<close> and \<open>fixes\<close> are \<open>file_name\<close> and \<open>fix_list\<close> here). Lines and columns are
  integers, as the matchers compute \<open>line - 1\<close> on them.
\<close>

record CompatibilityResult =
  file_name :: string
  line :: int
  column :: int
  feature :: string
  message :: string
  severity :: Severity
  baseline :: string
  browserSupport :: "string list"
  fix_list :: "CompatibilityFix list option"

definition filterResults ::
  "Browserslist \<Rightarrow> BaselineTarget \<Rightarrow> CompatibilityResult list \<Rightarrow> CompatibilityResult list" where
  "filterResults bl target results =
     filter (\<lambda>result. \<not> isFeatureBaseline bl target (feature result)) results"

definition enhanceResults :: "CompatibilityResult list \<Rightarrow> CompatibilityResult list" where
  "enhanceResults results =
     map (\<lambda>result. result\<lparr>message := message result @ '' - '' @ getBaselineMessage (feature result)\<rparr>)
       results"

subsection \<open>The effective configuration\<close>

datatype SeveritySetting = Level Severity | Ignore

record FeatureRule =
  rule_severity :: "SeveritySetting option"
  rule_message :: "string option"

text \<open>
  \<open>BaselineConfig\<close>, with the nested objects \<open>baseline\<close> and \<open>severity\<close> flattened into
  their fields.
\<close>

record BaselineConfig =
  baseline_target :: TargetYear
  baseline_browserslist :: "string list option"
  severity_default :: Severity
  severity_features :: "(string \<rightharpoonup> SeveritySetting) option"
  include_patterns :: "string list option"
  exclude_patterns :: "string list option"
  rules :: "(string \<rightharpoonup> FeatureRule) option"

definition DEFAULT_exclude :: "string list" where
  "DEFAULT_exclude = [''**/node_modules/**'', ''**/dist/**'', ''**/build/**'', ''**/.git/**'']"

text \<open>\<open>config.rules?.[featureId]?.severity\<close>\<close>

definition ruleSeverityOf :: "BaselineConfig \<Rightarrow> string \<Rightarrow> SeveritySetting option" where
  "ruleSeverityOf config featureId =
     (case rules config of
        None \<Rightarrow> None
      | Some rs \<Rightarrow> (case rs featureId of None \<Rightarrow> None | Some r \<Rightarrow> rule_severity r))"

text \<open>\<open>config.severity.features?.[featureId]\<close>\<close>

definition featureSeverityOf :: "BaselineConfig \<Rightarrow> string \<Rightarrow> SeveritySetting option" where
  "featureSeverityOf config featureId =
     (case severity_features config of None \<Rightarrow> None | Some fs \<Rightarrow> fs featureId)"

definition shouldIgnoreFeature :: "string \<Rightarrow> BaselineConfig \<Rightarrow> bool" where
  "shouldIgnoreFeature featureId config =
     (if ruleSeverityOf config featureId = Some Ignore then True
      else if featureSeverityOf config featureId = Some Ignore then True
      else False)"

definition getFeatureSeverity :: "string \<Rightarrow> BaselineConfig \<Rightarrow> Severity" where
  "getFeatureSeverity featureId config =
     (case ruleSeverityOf config featureId of
        Some (Level s) \<Rightarrow> s
      | _ \<Rightarrow>
          (case featureSeverityOf config featureId of
             Some (Level s) \<Rightarrow> s
           | _ \<Rightarrow> severity_default config))"

definition applyConfiguration ::
  "CompatibilityResult list \<Rightarrow> BaselineConfig \<Rightarrow> CompatibilityResult list" where
  "applyConfiguration results config =
     map (\<lambda>result. result\<lparr>severity := getFeatureSeverity (feature result) config\<rparr>)
       (filter (\<lambda>result. \<not> shouldIgnoreFeature (feature result) config) results)"

subsection \<open>The suppression resolver\<close>

definition isLineIgnored :: "int \<Rightarrow> int set \<Rightarrow> bool" where
  "isLineIgnored lineNo ignoredLines = (lineNo \<in> ignoredLines \<or> lineNo - 1 \<in> ignoredLines)"

text \<open>
  One marker test of the loop of \<open>parseIgnoreComments\<close>, on the line \<open>l\<close> numbered
  \<open>lineNumber\<close>; \<open>hasNext\<close> says that a next line exists (\<open>i + 1 < lines.length\<close>).
\<close>

definition markLine :: "string \<Rightarrow> string \<Rightarrow> int \<Rightarrow> bool \<Rightarrow> int set \<Rightarrow> int set" where
  "markLine marker l lineNumber hasNext ignoredLines =
     (if includesStr l marker then
        (if trim l = marker \<and> hasNext
         then insert (lineNumber + 1) (insert lineNumber ignoredLines)
         else insert lineNumber ignoredLines)
      else ignoredLines)"

text \<open>The script parser knows the line marker and the block marker.\<close>

fun ignoreLoop_js :: "string list \<Rightarrow> int \<Rightarrow> int set \<Rightarrow> int set" where
  "ignoreLoop_js [] lineNumber ignoredLines = ignoredLines"
| "ignoreLoop_js (l # rest) lineNumber ignoredLines =
     ignoreLoop_js rest (lineNumber + 1)
       (markLine ''/* baseline-buddy-ignore */'' l lineNumber (rest \<noteq> [])
          (markLine ''// baseline-buddy-ignore'' l lineNumber (rest \<noteq> []) ignoredLines))"

definition parseIgnoreComments_js :: "string \<Rightarrow> int set" where
  "parseIgnoreComments_js content = ignoreLoop_js (split content (CHR 0x0A)) 1 {}"

text \<open>The stylesheet parser knows the block marker only.\<close>

fun ignoreLoop_css :: "string list \<Rightarrow> int \<Rightarrow> int set \<Rightarrow> int set" where
  "ignoreLoop_css [] lineNumber ignoredLines = ignoredLines"
| "ignoreLoop_css (l # rest) lineNumber ignoredLines =
     ignoreLoop_css rest (lineNumber + 1)
       (markLine ''/* baseline-buddy-ignore */'' l lineNumber (rest \<noteq> []) ignoredLines)"

definition parseIgnoreComments_css :: "string \<Rightarrow> int set" where
  "parseIgnoreComments_css content = ignoreLoop_css (split content (CHR 0x0A)) 1 {}"

subsection \<open>Name tables of the script matcher\<close>

definition detectWebFeatures :: "string \<Rightarrow> WebFeature option" where
  "detectWebFeatures apiCall =
     (let apiMappings =
            [(''navigator.clipboard.write'', ''clipboard-api''),
             (''navigator.clipboard.writeText'', ''clipboard-api''),
             (''navigator.clipboard.read'', ''clipboard-api''),
             (''navigator.clipboard.readText'', ''clipboard-api''),
             (''window.showOpenFilePicker'', ''file-system-access''),
             (''window.showSaveFilePicker'', ''file-system-access''),
             (''window.showDirectoryPicker'', ''file-system-access''),
             (''document.startViewTransition'', ''view-transitions''),
             (''navigator.share'', ''web-share''),
             (''dialog.showModal'', ''dialog-element''),
             (''new IntersectionObserver'', ''intersection-observer''),
             (''new ResizeObserver'', ''resize-observer''),
             (''new BroadcastChannel'', ''broadcast-channel''),
             (''Array.prototype.flat'', ''array-flat''),
             (''Array.prototype.flatMap'', ''array-flatmap''),
             (''Array.prototype.at'', ''array-at''),
             (''Object.fromEntries'', ''object-fromentries''),
             (''String.prototype.matchAll'', ''string-matchall''),
             (''BigInt'', ''bigint''),
             (''globalThis'', ''globalthis''),
             (''flat'', ''array-flat''),
             (''flatMap'', ''array-flatmap''),
             (''at'', ''array-at''),
             (''fromEntries'', ''object-fromentries''),
             (''matchAll'', ''string-matchall'')];
          featureId =
            (case map_of apiMappings apiCall of
               Some i \<Rightarrow> Some i
             | None \<Rightarrow>
                 if includesStr apiCall ''.flat('' \<or> endsWith apiCall ''.flat''
                   then Some ''array-flat''
                 else if includesStr apiCall ''.flatMap('' \<or> endsWith apiCall ''.flatMap''
                   then Some ''array-flatmap''
                 else if includesStr apiCall ''.at('' \<or> endsWith apiCall ''.at''
                   then Some ''array-at''
                 else if includesStr apiCall ''.matchAll('' \<or> endsWith apiCall ''.matchAll''
                   then Some ''string-matchall''
                 else if includesStr apiCall ''fromEntries('' \<or> endsWith apiCall ''fromEntries''
                   then Some ''object-fromentries''
                 else if includesStr apiCall ''BigInt('' \<or> apiCall = ''BigInt''
                   then Some ''bigint''
                 else None)
      in case featureId of None \<Rightarrow> None | Some i \<Rightarrow> map_of webFeaturesData i)"

subsection \<open>Occurrences of the script matcher\<close>

text \<open>
  The last argument of \<open>createResult\<close> is untyped in the source: a catalog entry, or the
  literal \<open>{ baseline: { status: 'limited' } }\<close>. \<open>FeatureArg\<close> holds the three fields
  \<open>createResult\<close> reads from it.
\<close>

record FeatureArg =
  arg_status :: string
  arg_browser_support :: "(string \<times> string) list option"
  arg_mdn_url :: "string option"

definition ofWebFeature :: "WebFeature \<Rightarrow> FeatureArg" where
  "ofWebFeature f =
     \<lparr> arg_status = statusString (status (wf_baseline f)),
       arg_browser_support = Some (browser_support f),
       arg_mdn_url = mdn_url f \<rparr>"

definition limitedLiteral :: FeatureArg where
  "limitedLiteral = \<lparr> arg_status = ''limited'', arg_browser_support = None, arg_mdn_url = None \<rparr>"

definition createResult ::
  "string \<Rightarrow> int \<Rightarrow> int \<Rightarrow> string \<Rightarrow> string \<Rightarrow> Severity \<Rightarrow> FeatureArg option
     \<Rightarrow> CompatibilityResult" where
  "createResult f lineNo col feat msg sev webFeature =
     \<lparr> file_name = f, line = lineNo, column = col, feature = feat, message = msg, severity = sev,
       baseline =
         (case webFeature of
            None \<Rightarrow> ''unknown''
          | Some w \<Rightarrow> (if arg_status w = [] then ''unknown'' else arg_status w)),
       browserSupport =
         (case webFeature of
            None \<Rightarrow> []
          | Some w \<Rightarrow> (case arg_browser_support w of None \<Rightarrow> [] | Some bs \<Rightarrow> map fst bs)),
       fix_list =
         (case webFeature of
            None \<Rightarrow> None
          | Some w \<Rightarrow>
              (case arg_mdn_url w of
                 None \<Rightarrow> None
               | Some u \<Rightarrow>
                   if u = [] then None
                   else Some [\<lparr> fix_type = ''documentation'',
                                fix_description = ''Learn more on MDN'',
                                fix_url = Some u \<rparr>])) \<rparr>"

subsection \<open>The script matcher\<close>

text \<open>
  The syntax tree the Babel parser returns, reduced to what the visitors inspect: the node
  types they are registered for or test for, the fields they read, and the children in the
  order the traversal visits them. \<open>FunctionNode\<close> stands for every function node other than
  a private method, \<open>OtherNode\<close> for every other node type. A location is the start line
  and start column of \<open>node.loc\<close>, when there is one.
\<close>

type_synonym Loc = "(int \<times> int) option"

datatype Node =
    Identifier Loc string
  | StringLiteral Loc string
  | PrivateName Loc Node
  | MemberExpression Loc Node Node
  | OptionalMemberExpression Loc Node Node
  | CallExpression Loc Node "Node list"
  | OptionalCallExpression Loc Node "Node list"
  | NewExpression Loc Node "Node list"
  | LogicalExpression Loc string Node Node
  | AwaitExpression Loc Node
  | ClassPrivateProperty Loc "Node list"
  | ClassPrivateMethod Loc "Node list"
  | FunctionNode Loc "Node list"
  | OtherNode Loc "Node list"

text \<open>\<open>node.loc?.start.line || 0\<close> and \<open>node.loc?.start.column || 0\<close>\<close>

definition locLine :: "Loc \<Rightarrow> int" where
  "locLine loc = (case loc of None \<Rightarrow> 0 | Some (l, c) \<Rightarrow> l)"

definition locColumn :: "Loc \<Rightarrow> int" where
  "locColumn loc = (case loc of None \<Rightarrow> 0 | Some (l, c) \<Rightarrow> c)"

fun getPropertyName :: "Node \<Rightarrow> string option" where
  "getPropertyName (Identifier loc name) = Some name"
| "getPropertyName (StringLiteral loc v) = Some v"
| "getPropertyName _ = None"

fun getObjectName :: "Node \<Rightarrow> string option" where
  "getObjectName (Identifier loc name) = Some name"
| "getObjectName (MemberExpression loc ob pr) =
     (case (getObjectName ob, getPropertyName pr) of
        (Some object, Some property) \<Rightarrow>
          if object \<noteq> [] \<and> property \<noteq> [] then Some (object @ ''.'' @ property) else None
      | _ \<Rightarrow> None)"
| "getObjectName _ = None"

text \<open>
  \<open>checkWebAPI\<close> pushes at most one occurrence and returns whether it did: \<open>Some r\<close> is
  the pushed occurrence and the result \<open>true\<close>.
\<close>

definition checkWebAPI ::
  "string \<Rightarrow> Loc \<Rightarrow> Node \<Rightarrow> string \<Rightarrow> int set \<Rightarrow> CompatibilityResult option" where
  "checkWebAPI apiCall loc property filename ignoredLines =
     (let lineNo = locLine loc in
      if isLineIgnored lineNo ignoredLines then None
      else if apiCall = ''dialog.showModal'' \<or> apiCall = ''dialog.close'' then
        Some (createResult filename lineNo (locColumn loc) ''dialog-element''
                (apiCall @ ''() - Dialog element requires modern browsers'')
                Warning (Some limitedLiteral))
      else if includesStr apiCall ''clipboard.write''
              \<or> apiCall = ''navigator.clipboard.writeText''
              \<or> apiCall = ''navigator.clipboard.read''
              \<or> apiCall = ''navigator.clipboard.readText'' then
        Some (createResult filename lineNo (locColumn loc) ''clipboard-api''
                (apiCall @ ''() - Clipboard API requires modern browsers and user permission'')
                Warning (Some limitedLiteral))
      else if apiCall = ''navigator.share'' then
        Some (createResult filename lineNo (locColumn loc) ''web-share-api''
                ''navigator.share() - Web Share API is not widely supported''
                Warning (Some limitedLiteral))
      else if apiCall = ''document.startViewTransition'' then
        Some (createResult filename lineNo (locColumn loc) ''view-transitions''
                ''document.startViewTransition() - View Transitions API requires modern browsers''
                Warning (Some limitedLiteral))
      else if includesStr apiCall ''attributeStyleMap''
              \<or> includesStr apiCall ''computedStyleMap'' then
        Some (createResult filename lineNo (locColumn loc) ''css-typed-om''
                (apiCall @ '' - CSS Typed Object Model requires modern browsers'')
                Warning (Some limitedLiteral))
      else if includesStr apiCall ''IntersectionObserver''
              \<and> (case property of
                     Identifier l name \<Rightarrow> name = ''trackVisibility'' \<or> name = ''delay''
                   | _ \<Rightarrow> False) then
        Some (createResult filename lineNo (locColumn loc) ''intersection-observer-v2''
                ''IntersectionObserver v2 features (trackVisibility, delay) require modern browsers''
                Warning (Some limitedLiteral))
      else None)"

text \<open>
  The common tail of the table-driven visitors: \<open>feature && !status.includes('widely')\<close>,
  then the suppression test, then one occurrence with the given message.
\<close>

definition notWidely :: "WebFeature \<Rightarrow> bool" where
  "notWidely f = (\<not> includesStr (statusString (status (wf_baseline f))) ''widely'')"

definition visitMemberExpression ::
  "string \<Rightarrow> int set \<Rightarrow> bool \<Rightarrow> Loc \<Rightarrow> Node \<Rightarrow> Node \<Rightarrow> CompatibilityResult list" where
  "visitMemberExpression filename ignoredLines parentOptional loc ob pr =
     (if parentOptional then []
      else
        (case (getObjectName ob, getPropertyName pr) of
           (Some objectName, Some propertyName) \<Rightarrow>
             if objectName = [] \<or> propertyName = [] then []
             else
               (let apiCall = objectName @ ''.'' @ propertyName in
                case checkWebAPI apiCall loc pr filename ignoredLines of
                  Some r \<Rightarrow> [r]
                | None \<Rightarrow>
                    (case detectWebFeatures apiCall of
                       None \<Rightarrow> []
                     | Some f \<Rightarrow>
                         if notWidely f \<and> \<not> isLineIgnored (locLine loc) ignoredLines then
                           [createResult filename (locLine loc) (locColumn loc) (wf_id f)
                              (apiCall @ '' is not widely supported (''
                                 @ statusString (status (wf_baseline f)) @ '')'')
                              Warning (Some (ofWebFeature f))]
                         else []))
         | _ \<Rightarrow> []))"

definition visitOptional ::
  "string \<Rightarrow> int set \<Rightarrow> bool \<Rightarrow> Loc \<Rightarrow> CompatibilityResult list" where
  "visitOptional filename ignoredLines parentOptional loc =
     (if parentOptional then []
      else if \<not> isLineIgnored (locLine loc) ignoredLines then
        [createResult filename (locLine loc) (locColumn loc) ''optional-chaining''
           ''Optional chaining (?.) requires modern browsers'' Warning None]
      else [])"

definition visitLogicalExpression ::
  "string \<Rightarrow> int set \<Rightarrow> Loc \<Rightarrow> string \<Rightarrow> CompatibilityResult list" where
  "visitLogicalExpression filename ignoredLines loc operator =
     (if operator = ''??'' \<and> \<not> isLineIgnored (locLine loc) ignoredLines then
        [createResult filename (locLine loc) (locColumn loc) ''nullish-coalescing''
           ''Nullish coalescing (??) requires modern browsers'' Warning None]
      else [])"

definition visitNewExpression ::
  "string \<Rightarrow> int set \<Rightarrow> Loc \<Rightarrow> Node \<Rightarrow> CompatibilityResult list" where
  "visitNewExpression filename ignoredLines loc callee =
     (case callee of
        Identifier l name \<Rightarrow>
          (let constructorName = ''new '' @ name in
           case detectWebFeatures constructorName of
             None \<Rightarrow> []
           | Some f \<Rightarrow>
               if notWidely f \<and> \<not> isLineIgnored (locLine loc) ignoredLines then
                 [createResult filename (locLine loc) (locColumn loc) (wf_id f)
                    (constructorName @ '' is not widely supported (''
                       @ statusString (status (wf_baseline f)) @ '')'')
                    Warning (Some (ofWebFeature f))]
               else [])
      | _ \<Rightarrow> [])"

definition visitCallExpression ::
  "string \<Rightarrow> int set \<Rightarrow> Loc \<Rightarrow> Node \<Rightarrow> CompatibilityResult list" where
  "visitCallExpression filename ignoredLines loc callee =
     (let functionName =
            (case callee of
               Identifier l name \<Rightarrow> name
             | MemberExpression l ob pr \<Rightarrow>
                 (case (getObjectName ob, getPropertyName pr) of
                    (Some objectName, Some methodName) \<Rightarrow>
                      if objectName \<noteq> [] \<and> methodName \<noteq> []
                      then objectName @ ''.'' @ methodName else []
                  | _ \<Rightarrow> [])
             | _ \<Rightarrow> [])
      in if functionName = [] then []
         else
           (case detectWebFeatures functionName of
              None \<Rightarrow> []
            | Some f \<Rightarrow>
                if notWidely f \<and> \<not> isLineIgnored (locLine loc) ignoredLines then
                  [createResult filename (locLine loc) (locColumn loc) (wf_id f)
                     (if wf_id f = ''array-at''
                      then ''Array.at() method is not widely supported (''
                             @ statusString (status (wf_baseline f)) @ '')''
                      else functionName @ ''() is not widely supported (''
                             @ statusString (status (wf_baseline f)) @ '')'')
                     Warning (Some (ofWebFeature f))]
                else []))"

definition visitFixed ::
  "string \<Rightarrow> int set \<Rightarrow> Loc \<Rightarrow> string \<Rightarrow> string \<Rightarrow> CompatibilityResult list" where
  "visitFixed filename ignoredLines loc feat msg =
     (if \<not> isLineIgnored (locLine loc) ignoredLines then
        [createResult filename (locLine loc) (locColumn loc) feat msg Warning None]
      else [])"

text \<open>
  The visitor called on entering a node. \<open>parentOptional\<close>: the node has a parent, which
  is an optional member or optional call expression. \<open>functionParent\<close>: some ancestor is a
  function (\<open>path.getFunctionParent()\<close> is not null).
\<close>

fun visit :: "string \<Rightarrow> int set \<Rightarrow> bool \<Rightarrow> bool \<Rightarrow> Node \<Rightarrow> CompatibilityResult list" where
  "visit filename ignoredLines parentOptional functionParent (MemberExpression loc ob pr) =
     visitMemberExpression filename ignoredLines parentOptional loc ob pr"
| "visit filename ignoredLines parentOptional functionParent (OptionalMemberExpression loc ob pr) =
     visitOptional filename ignoredLines parentOptional loc"
| "visit filename ignoredLines parentOptional functionParent (OptionalCallExpression loc callee args) =
     visitOptional filename ignoredLines parentOptional loc"
| "visit filename ignoredLines parentOptional functionParent (LogicalExpression loc operator l r) =
     visitLogicalExpression filename ignoredLines loc operator"
| "visit filename ignoredLines parentOptional functionParent (NewExpression loc callee args) =
     visitNewExpression filename ignoredLines loc callee"
| "visit filename ignoredLines parentOptional functionParent (CallExpression loc callee args) =
     visitCallExpression filename ignoredLines loc callee"
| "visit filename ignoredLines parentOptional functionParent (ClassPrivateProperty loc children) =
     visitFixed filename ignoredLines loc ''private-class-fields''
       ''Private class fields require modern browsers''"
| "visit filename ignoredLines parentOptional functionParent (ClassPrivateMethod loc children) =
     visitFixed filename ignoredLines loc ''private-class-fields''
       ''Private class methods require modern browsers''"
| "visit filename ignoredLines parentOptional functionParent (PrivateName loc i) =
     visitFixed filename ignoredLines loc ''private-class-fields''
       ''Private class field access requires modern browsers''"
| "visit filename ignoredLines parentOptional functionParent (AwaitExpression loc argument) =
     (if \<not> functionParent then
        visitFixed filename ignoredLines loc ''top-level-await''
          ''Top-level await requires modern browsers and module context''
      else [])"
| "visit filename ignoredLines parentOptional functionParent _ = []"

text \<open>
  The traversal: depth first, the visitor on entering each node, the children in order.
  The occurrences come out in the order the visitors push them.
\<close>

fun traverse :: "string \<Rightarrow> int set \<Rightarrow> bool \<Rightarrow> bool \<Rightarrow> Node \<Rightarrow> CompatibilityResult list"
  and traverseAll ::
    "string \<Rightarrow> int set \<Rightarrow> bool \<Rightarrow> bool \<Rightarrow> Node list \<Rightarrow> CompatibilityResult list" where
  "traverse fn ig po fp (Identifier loc name) = visit fn ig po fp (Identifier loc name)"
| "traverse fn ig po fp (StringLiteral loc v) = visit fn ig po fp (StringLiteral loc v)"
| "traverse fn ig po fp (PrivateName loc i) =
     visit fn ig po fp (PrivateName loc i) @ traverse fn ig False fp i"
| "traverse fn ig po fp (MemberExpression loc ob pr) =
     visit fn ig po fp (MemberExpression loc ob pr)
       @ traverse fn ig False fp ob @ traverse fn ig False fp pr"
| "traverse fn ig po fp (OptionalMemberExpression loc ob pr) =
     visit fn ig po fp (OptionalMemberExpression loc ob pr)
       @ traverse fn ig True fp ob @ traverse fn ig True fp pr"
| "traverse fn ig po fp (CallExpression loc callee args) =
     visit fn ig po fp (CallExpression loc callee args)
       @ traverse fn ig False fp callee @ traverseAll fn ig False fp args"
| "traverse fn ig po fp (OptionalCallExpression loc callee args) =
     visit fn ig po fp (OptionalCallExpression loc callee args)
       @ traverse fn ig True fp callee @ traverseAll fn ig True fp args"
| "traverse fn ig po fp (NewExpression loc callee args) =
     visit fn ig po fp (NewExpression loc callee args)
       @ traverse fn ig False fp callee @ traverseAll fn ig False fp args"
| "traverse fn ig po fp (LogicalExpression loc operator l r) =
     visit fn ig po fp (LogicalExpression loc operator l r)
       @ traverse fn ig False fp l @ traverse fn ig False fp r"
| "traverse fn ig po fp (AwaitExpression loc argument) =
     visit fn ig po fp (AwaitExpression loc argument) @ traverse fn ig False fp argument"
| "traverse fn ig po fp (ClassPrivateProperty loc children) =
     visit fn ig po fp (ClassPrivateProperty loc children) @ traverseAll fn ig False fp children"
| "traverse fn ig po fp (ClassPrivateMethod loc children) =
     visit fn ig po fp (ClassPrivateMethod loc children) @ traverseAll fn ig False True children"
| "traverse fn ig po fp (FunctionNode loc children) =
     visit fn ig po fp (FunctionNode loc children) @ traverseAll fn ig False True children"
| "traverse fn ig po fp (OtherNode loc children) =
     visit fn ig po fp (OtherNode loc children) @ traverseAll fn ig False fp children"
| "traverseAll fn ig po fp [] = []"
| "traverseAll fn ig po fp (n # ns) = traverse fn ig po fp n @ traverseAll fn ig po fp ns"

text \<open>
  \<open>parseJavaScript\<close>: the suppression set first; then, inside \<open>try\<close>, the parse and the
  traversal. When the parser throws (\<open>None\<close>) nothing has been pushed yet, and the
  \<open>catch\<close> block returns the empty list of results. The traversal of a tree the parser
  has returned is taken to run to its end: a throw of the traversal library itself, which the
  same \<open>catch\<close> block would absorb, is not modelled.
\<close>

definition parseJavaScript :: "(string \<Rightarrow> Node option) \<Rightarrow> string \<Rightarrow> string \<Rightarrow> CompatibilityResult list" where
  "parseJavaScript babelParse content filename =
     (let ignoredLines = parseIgnoreComments_js content in
      case babelParse content of
        None \<Rightarrow> []
      | Some ast \<Rightarrow> traverse filename ignoredLines False False ast)"

subsection \<open>The stylesheet matcher\<close>

definition detectCSSFeatures :: "string \<Rightarrow> WebFeature option" where
  "detectCSSFeatures cssFeature =
     (let cssMappings =
            [(''pseudo::has'', ''css-has-selector''),
             (''pseudo::focus-visible'', ''css-focus-visible''),
             (''pseudo::focus-within'', ''css-focus-within''),
             (''pseudo::is'', ''css-is-selector''),
             (''pseudo::where'', ''css-where-selector''),
             (''property:container-type'', ''css-container-queries''),
             (''property:container-name'', ''css-container-queries''),
             (''property:container'', ''css-container-queries''),
             (''property:aspect-ratio'', ''css-aspect-ratio''),
             (''property:gap'', ''css-gap''),
             (''property:inset'', ''css-inset''),
             (''property:scroll-behavior'', ''css-scroll-behavior''),
             (''property:scroll-snap-type'', ''css-scroll-snap''),
             (''property:overscroll-behavior'', ''css-overscroll-behavior''),
             (''property:color-scheme'', ''css-color-scheme''),
             (''property:accent-color'', ''css-accent-color''),
             (''property:backdrop-filter'', ''css-backdrop-filter'')];
          byTable =
            (case map_of cssMappings cssFeature of
               None \<Rightarrow> None
             | Some featureId \<Rightarrow> map_of webFeaturesData featureId)
      in if startsWith cssFeature ''value:'' then
           (let v = drop 6 cssFeature in
            if includesStr v ''oklch('' then map_of webFeaturesData ''css-oklch-color''
            else if includesStr v ''oklab('' then map_of webFeaturesData ''css-oklab-color''
            else if includesStr v ''hwb('' then map_of webFeaturesData ''css-hwb-color''
            else if includesStr v ''color-mix('' then map_of webFeaturesData ''css-color-mix''
            else if v = ''subgrid'' then map_of webFeaturesData ''css-subgrid''
            else if v = ''masonry'' then map_of webFeaturesData ''css-masonry''
            else byTable)
         else byTable)"

text \<open>
  The tree the PostCSS parser returns: at-rules (name, parameters), rules (selector),
  declarations (property, value) and comments, each with the start of its source range.
\<close>

datatype CssNode =
    CssAtRule Loc string string "CssNode list"
  | CssRule Loc string "CssNode list"
  | CssDeclaration Loc string string
  | CssComment Loc

definition atRuleOccurrence ::
  "string \<Rightarrow> int set \<Rightarrow> Loc \<Rightarrow> string \<Rightarrow> string \<Rightarrow> string list \<Rightarrow> CompatibilityResult list" where
  "atRuleOccurrence filename ignoredLines loc feat msg support =
     (if \<not> isLineIgnored (locLine loc) ignoredLines then
        [\<lparr> file_name = filename, line = locLine loc, column = locColumn loc,
           feature = feat, message = msg, severity = Warning, baseline = ''limited'',
           browserSupport = support, fix_list = None \<rparr>]
      else [])"

text \<open>\<open>walkAtRules(name, callback)\<close>: every at-rule of that name, in document order.\<close>

fun walkAtRules ::
    "string \<Rightarrow> (Loc \<Rightarrow> CompatibilityResult list) \<Rightarrow> CssNode \<Rightarrow> CompatibilityResult list"
  and walkAtRulesAll ::
    "string \<Rightarrow> (Loc \<Rightarrow> CompatibilityResult list) \<Rightarrow> CssNode list \<Rightarrow> CompatibilityResult list" where
  "walkAtRules nm cb (CssAtRule loc name params children) =
     (if name = nm then cb loc else []) @ walkAtRulesAll nm cb children"
| "walkAtRules nm cb (CssRule loc selector children) = walkAtRulesAll nm cb children"
| "walkAtRules nm cb (CssDeclaration loc prop v) = []"
| "walkAtRules nm cb (CssComment loc) = []"
| "walkAtRulesAll nm cb [] = []"
| "walkAtRulesAll nm cb (n # ns) = walkAtRules nm cb n @ walkAtRulesAll nm cb ns"

definition ruleCallback ::
  "string \<Rightarrow> int set \<Rightarrow> Loc \<Rightarrow> string \<Rightarrow> CompatibilityResult list" where
  "ruleCallback filename ignoredLines loc selector =
     (if includesStr selector '':has('' then
        atRuleOccurrence filename ignoredLines loc ''css-has-selector''
          '':has() selector is not widely supported'' [''chrome'', ''firefox'', ''safari'']
      else [])
     @ (if includesStr selector '':is('' then
          atRuleOccurrence filename ignoredLines loc ''css-is-selector''
            '':is() selector is not widely supported'' [''chrome'', ''firefox'', ''safari'']
        else [])
     @ (if includesStr selector '':where('' then
          atRuleOccurrence filename ignoredLines loc ''css-where-selector''
            '':where() selector is not widely supported'' [''chrome'', ''firefox'', ''safari'']
        else [])"

fun walkRules :: "string \<Rightarrow> int set \<Rightarrow> CssNode \<Rightarrow> CompatibilityResult list"
  and walkRulesAll :: "string \<Rightarrow> int set \<Rightarrow> CssNode list \<Rightarrow> CompatibilityResult list" where
  "walkRules fn ig (CssAtRule loc name params children) = walkRulesAll fn ig children"
| "walkRules fn ig (CssRule loc selector children) =
     ruleCallback fn ig loc selector @ walkRulesAll fn ig children"
| "walkRules fn ig (CssDeclaration loc prop v) = []"
| "walkRules fn ig (CssComment loc) = []"
| "walkRulesAll fn ig [] = []"
| "walkRulesAll fn ig (n # ns) = walkRules fn ig n @ walkRulesAll fn ig ns"

definition declOccurrence :: "string \<Rightarrow> Loc \<Rightarrow> string \<Rightarrow> string \<Rightarrow> string list \<Rightarrow> CompatibilityResult" where
  "declOccurrence filename loc feat msg support =
     \<lparr> file_name = filename, line = locLine loc, column = locColumn loc,
       feature = feat, message = msg, severity = Warning, baseline = ''limited'',
       browserSupport = support, fix_list = None \<rparr>"

definition declCallback ::
  "string \<Rightarrow> int set \<Rightarrow> Loc \<Rightarrow> string \<Rightarrow> string \<Rightarrow> CompatibilityResult list" where
  "declCallback filename ignoredLines loc prop v =
     (if isLineIgnored (locLine loc) ignoredLines then []
      else
        (if prop \<in> set [''container-type'', ''container-name'', ''container''] then
           [declOccurrence filename loc ''css-container-queries''
              (''Container query property '' @ [CHR 0x27] @ prop @ [CHR 0x27]
                 @ '' is not widely supported'')
              [''chrome'', ''firefox'']]
         else [])
        @ (if prop \<in> set [''translate'', ''rotate'', ''scale''] then
             [declOccurrence filename loc ''css-individual-transform-properties''
                (''Individual transform property '' @ [CHR 0x27] @ prop @ [CHR 0x27]
                   @ '' is not widely supported'')
                [''chrome'', ''firefox'', ''safari'']]
           else [])
        @ (if includesStr v ''subgrid'' then
             [declOccurrence filename loc ''css-subgrid'' ''subgrid is not widely supported''
                [''firefox'']]
           else [])
        @ (if includesStr v ''color-mix('' then
             [declOccurrence filename loc ''css-color-mix''
                ''color-mix() function is not widely supported''
                [''chrome'', ''firefox'', ''safari'']]
           else [])
        @ (case (case detectCSSFeatures (''property:'' @ prop) of
                   Some f \<Rightarrow> Some f
                 | None \<Rightarrow> detectCSSFeatures (''value:'' @ v)) of
             None \<Rightarrow> []
           | Some f \<Rightarrow>
               if notWidely f then
                 [\<lparr> file_name = filename, line = locLine loc, column = locColumn loc,
                    feature = wf_id f,
                    message = prop @ '': '' @ v @ '' is not widely supported'',
                    severity = Warning,
                    baseline = statusString (status (wf_baseline f)),
                    browserSupport = map fst (browser_support f),
                    fix_list =
                      (case mdn_url f of
                         None \<Rightarrow> None
                       | Some u \<Rightarrow>
                           if u = [] then None
                           else Some [\<lparr> fix_type = ''documentation'',
                                        fix_description = ''Learn more on MDN'',
                                        fix_url = Some u \<rparr>]) \<rparr>]
               else []))"

fun walkDecls :: "string \<Rightarrow> int set \<Rightarrow> CssNode \<Rightarrow> CompatibilityResult list"
  and walkDeclsAll :: "string \<Rightarrow> int set \<Rightarrow> CssNode list \<Rightarrow> CompatibilityResult list" where
  "walkDecls fn ig (CssAtRule loc name params children) = walkDeclsAll fn ig children"
| "walkDecls fn ig (CssRule loc selector children) = walkDeclsAll fn ig children"
| "walkDecls fn ig (CssDeclaration loc prop v) = declCallback fn ig loc prop v"
| "walkDecls fn ig (CssComment loc) = []"
| "walkDeclsAll fn ig [] = []"
| "walkDeclsAll fn ig (n # ns) = walkDecls fn ig n @ walkDeclsAll fn ig ns"

text \<open>
  \<open>parseCSS\<close>: the suppression set, then inside \<open>try\<close> the parse and four walks over the
  children of the root. When the parser throws (\<open>None\<close>) the result is empty.
\<close>

definition parseCSS ::
  "(string \<Rightarrow> string \<Rightarrow> CssNode list option) \<Rightarrow> string \<Rightarrow> string \<Rightarrow> CompatibilityResult list" where
  "parseCSS postcssParse content filename =
     (let ignoredLines = parseIgnoreComments_css content in
      case postcssParse content filename of
        None \<Rightarrow> []
      | Some ast \<Rightarrow>
          walkAtRulesAll ''layer''
            (\<lambda>loc. atRuleOccurrence filename ignoredLines loc ''css-cascade-layers''
                     ''@layer cascade layers are not widely supported''
                     [''chrome'', ''firefox'', ''safari'']) ast
          @ walkAtRulesAll ''container''
              (\<lambda>loc. atRuleOccurrence filename ignoredLines loc ''css-container-queries''
                       ''@container queries are not widely supported''
                       [''chrome'', ''firefox'']) ast
          @ walkRulesAll filename ignoredLines ast
          @ walkDeclsAll filename ignoredLines ast)"

subsection \<open>Loading the configuration\<close>

text \<open>A parsed JSON value; an object is the list of its members.\<close>

datatype Json =
    JNull
  | JBool bool
  | JNumber rat
  | JString string
  | JArray "Json list"
  | JObject "(string \<times> Json) list"

text \<open>
  The libraries and the file system the core calls. A function that may throw returns
  \<open>None\<close> when it does.
\<close>

record Env =
  browserslist :: Browserslist
  babelParse :: "string \<Rightarrow> Node option"
  postcssParse :: "string \<Rightarrow> string \<Rightarrow> CssNode list option"
  readFileSync :: "string \<Rightarrow> string option"
  existsSync :: "string \<Rightarrow> bool"
  jsonParse :: "string \<Rightarrow> Json option"
  pathJoin :: "string \<Rightarrow> string \<Rightarrow> string"
  cwd :: string
  glob :: "string \<Rightarrow> string list \<Rightarrow> string list"
  minimatch :: "string \<Rightarrow> string \<Rightarrow> bool"

definition truthy :: "Json \<Rightarrow> bool" where
  "truthy j =
     (case j of
        JNull \<Rightarrow> False
      | JBool b \<Rightarrow> b
      | JNumber r \<Rightarrow> r \<noteq> 0
      | JString t \<Rightarrow> t \<noteq> []
      | _ \<Rightarrow> True)"

text \<open>\<open>j.k\<close> or \<open>j?.k\<close> on a value that is not \<open>null\<close>: \<open>None\<close> is \<open>undefined\<close>.\<close>

definition getProp :: "Json \<Rightarrow> string \<Rightarrow> Json option" where
  "getProp j k = (case j of JObject members \<Rightarrow> map_of members k | _ \<Rightarrow> None)"

text \<open>
  The schema \<open>baselineConfigSchema\<close>, keyword by keyword: \<open>type\<close>, \<open>enum\<close>, \<open>items\<close>,
  \<open>properties\<close>, \<open>patternProperties\<close> (the pattern \<open>.*\<close> matches every key),
  \<open>required\<close> and \<open>additionalProperties: false\<close>.
\<close>

definition isString :: "Json \<Rightarrow> bool" where
  "isString j = (case j of JString t \<Rightarrow> True | _ \<Rightarrow> False)"

definition stringEnum :: "string list \<Rightarrow> Json \<Rightarrow> bool" where
  "stringEnum allowed j = (case j of JString t \<Rightarrow> t \<in> set allowed | _ \<Rightarrow> False)"

definition stringArray :: "Json \<Rightarrow> bool" where
  "stringArray j = (case j of JArray xs \<Rightarrow> list_all isString xs | _ \<Rightarrow> False)"

definition property :: "(string \<times> Json) list \<Rightarrow> string \<Rightarrow> (Json \<Rightarrow> bool) \<Rightarrow> bool" where
  "property members k valid = (case map_of members k of None \<Rightarrow> True | Some v \<Rightarrow> valid v)"

definition required :: "(string \<times> Json) list \<Rightarrow> string list \<Rightarrow> bool" where
  "required members ks = list_all (\<lambda>k. map_of members k \<noteq> None) ks"

definition noAdditionalProperties :: "(string \<times> Json) list \<Rightarrow> string list \<Rightarrow> bool" where
  "noAdditionalProperties members ks = list_all (\<lambda>(k, v). k \<in> set ks) members"

definition patternProperties :: "(string \<times> Json) list \<Rightarrow> (Json \<Rightarrow> bool) \<Rightarrow> bool" where
  "patternProperties members valid = list_all (\<lambda>(k, v). valid v) members"

definition severityEnum :: "string list" where
  "severityEnum = [''error'', ''warning'', ''info'']"

definition settingEnum :: "string list" where
  "settingEnum = [''error'', ''warning'', ''info'', ''ignore'']"

definition validBaseline :: "Json \<Rightarrow> bool" where
  "validBaseline j =
     (case j of
        JObject members \<Rightarrow>
          property members ''target'' (stringEnum [''2024'', ''2025'', ''custom''])
          \<and> property members ''browserslist'' stringArray
          \<and> required members [''target'']
          \<and> noAdditionalProperties members [''target'', ''browserslist'']
      | _ \<Rightarrow> False)"

definition validFeatures :: "Json \<Rightarrow> bool" where
  "validFeatures j =
     (case j of JObject members \<Rightarrow> patternProperties members (stringEnum settingEnum) | _ \<Rightarrow> False)"

definition validSeverity :: "Json \<Rightarrow> bool" where
  "validSeverity j =
     (case j of
        JObject members \<Rightarrow>
          property members ''default'' (stringEnum severityEnum)
          \<and> property members ''features'' validFeatures
          \<and> required members [''default'']
          \<and> noAdditionalProperties members [''default'', ''features'']
      | _ \<Rightarrow> False)"

definition validRule :: "Json \<Rightarrow> bool" where
  "validRule j =
     (case j of
        JObject members \<Rightarrow>
          property members ''severity'' (stringEnum settingEnum)
          \<and> property members ''message'' isString
          \<and> noAdditionalProperties members [''severity'', ''message'']
      | _ \<Rightarrow> False)"

definition validRules :: "Json \<Rightarrow> bool" where
  "validRules j = (case j of JObject members \<Rightarrow> patternProperties members validRule | _ \<Rightarrow> False)"

text \<open>\<open>validateConfigSchema\<close> throws exactly when this is false.\<close>

definition validateConfigSchema :: "Json \<Rightarrow> bool" where
  "validateConfigSchema config =
     (case config of
        JObject members \<Rightarrow>
          property members ''$schema'' isString
          \<and> property members ''baseline'' validBaseline
          \<and> property members ''severity'' validSeverity
          \<and> property members ''include'' stringArray
          \<and> property members ''exclude'' stringArray
          \<and> property members ''rules'' validRules
          \<and> required members [''baseline'', ''severity'']
          \<and> noAdditionalProperties members
                [''$schema'', ''baseline'', ''severity'', ''include'', ''exclude'', ''rules'']
      | _ \<Rightarrow> False)"

text \<open>
  Reading the typed fields of \<open>BaselineConfig\<close> out of the parsed value.
  \<open>mergeWithDefaults\<close> is only called on the empty object and on values that passed the
  schema, for which every text read here is one of the enumerated ones.
\<close>

definition targetOfString :: "string \<Rightarrow> TargetYear option" where
  "targetOfString t =
     (if t = ''2024'' then Some Y2024 else if t = ''2025'' then Some Y2025
      else if t = ''custom'' then Some Custom else None)"

definition severityOfString :: "string \<Rightarrow> Severity option" where
  "severityOfString t =
     (if t = ''error'' then Some Error else if t = ''warning'' then Some Warning
      else if t = ''info'' then Some Info else None)"

definition settingOfJson :: "Json \<Rightarrow> SeveritySetting option" where
  "settingOfJson j =
     (case j of
        JString t \<Rightarrow>
          (if t = ''ignore'' then Some Ignore else map_option Level (severityOfString t))
      | _ \<Rightarrow> None)"

definition stringsOf :: "Json \<Rightarrow> string list option" where
  "stringsOf j =
     (case j of
        JArray xs \<Rightarrow> Some (map (\<lambda>x. case x of JString t \<Rightarrow> t | _ \<Rightarrow> []) xs)
      | _ \<Rightarrow> None)"

definition subProp :: "Json \<Rightarrow> string \<Rightarrow> string \<Rightarrow> Json option" where
  "subProp j outer inner =
     (case getProp j outer of None \<Rightarrow> None | Some ob \<Rightarrow> getProp ob inner)"

definition featuresOf :: "Json \<Rightarrow> (string \<rightharpoonup> SeveritySetting) option" where
  "featuresOf j =
     (case j of
        JObject members \<Rightarrow>
          Some (\<lambda>k. case map_of members k of None \<Rightarrow> None | Some v \<Rightarrow> settingOfJson v)
      | _ \<Rightarrow> None)"

definition ruleOf :: "Json \<Rightarrow> FeatureRule" where
  "ruleOf j =
     \<lparr> rule_severity = (case getProp j ''severity'' of None \<Rightarrow> None | Some v \<Rightarrow> settingOfJson v),
       rule_message = (case getProp j ''message'' of Some (JString t) \<Rightarrow> Some t | _ \<Rightarrow> None) \<rparr>"

definition rulesOf :: "Json \<Rightarrow> (string \<rightharpoonup> FeatureRule) option" where
  "rulesOf j =
     (case j of
        JObject members \<Rightarrow> Some (\<lambda>k. map_option ruleOf (map_of members k))
      | _ \<Rightarrow> None)"

definition mergeWithDefaults :: "Json \<Rightarrow> BaselineConfig" where
  "mergeWithDefaults userConfig =
     \<lparr> baseline_target =
         (case subProp userConfig ''baseline'' ''target'' of
            Some (JString t) \<Rightarrow> (case targetOfString t of Some y \<Rightarrow> y | None \<Rightarrow> Y2024)
          | _ \<Rightarrow> Y2024),
       baseline_browserslist =
         (case subProp userConfig ''baseline'' ''browserslist'' of
            Some v \<Rightarrow> stringsOf v
          | None \<Rightarrow> None),
       severity_default =
         (case subProp userConfig ''severity'' ''default'' of
            Some (JString t) \<Rightarrow> (case severityOfString t of Some v \<Rightarrow> v | None \<Rightarrow> Warning)
          | _ \<Rightarrow> Warning),
       severity_features =
         (case subProp userConfig ''severity'' ''features'' of
            Some v \<Rightarrow> featuresOf v
          | None \<Rightarrow> None),
       include_patterns =
         (case getProp userConfig ''include'' of Some v \<Rightarrow> stringsOf v | None \<Rightarrow> None),
       exclude_patterns =
         (case getProp userConfig ''exclude'' of
            Some v \<Rightarrow> (case stringsOf v of Some xs \<Rightarrow> Some xs | None \<Rightarrow> Some DEFAULT_exclude)
          | None \<Rightarrow> Some DEFAULT_exclude),
       rules =
         (case getProp userConfig ''rules'' of Some v \<Rightarrow> rulesOf v | None \<Rightarrow> None) \<rparr>"

text \<open>
  \<open>findConfigFile\<close>: the first of the three candidate files that exists; \<open>package.json\<close>
  counts only when it parses and has a truthy \<open>baselineBuddy\<close> member.
\<close>

fun findConfigLoop :: "Env \<Rightarrow> string \<Rightarrow> string list \<Rightarrow> string option" where
  "findConfigLoop env searchPath [] = None"
| "findConfigLoop env searchPath (configFile # configFiles) =
     (let fullPath = pathJoin env searchPath configFile in
      if existsSync env fullPath then
        (if configFile = ''package.json'' then
           (case readFileSync env fullPath of
              None \<Rightarrow> findConfigLoop env searchPath configFiles
            | Some text \<Rightarrow>
                (case jsonParse env text of
                   None \<Rightarrow> findConfigLoop env searchPath configFiles
                 | Some JNull \<Rightarrow> findConfigLoop env searchPath configFiles
                 | Some pkg \<Rightarrow>
                     (case getProp pkg ''baselineBuddy'' of
                        Some v \<Rightarrow>
                          if truthy v then Some fullPath
                          else findConfigLoop env searchPath configFiles
                      | None \<Rightarrow> findConfigLoop env searchPath configFiles)))
         else Some fullPath)
      else findConfigLoop env searchPath configFiles)"

definition findConfigFile :: "Env \<Rightarrow> string option \<Rightarrow> string option" where
  "findConfigFile env workspaceRoot =
     findConfigLoop env
       (case workspaceRoot of
          Some r \<Rightarrow> (if r = [] then cwd env else r)
        | None \<Rightarrow> cwd env)
       [''baseline.config.json'', ''.baseline.json'', ''package.json'']"

datatype LoadError =
    ReadFailed
  | InvalidJSON
  | PropertyOfNull
  | SchemaViolation
  | InvalidBrowserslist

type_synonym ConfigCache = "string \<rightharpoonup> BaselineConfig"

text \<open>
  \<open>loadConfig\<close>. Everything thrown inside its \<open>try\<close> block is an \<open>Error\<close>, which the
  \<open>catch\<close> block throws again: the result is \<open>Inl\<close> of the cause. On success the result
  is the configuration and the cache after the call.
\<close>

definition loadConfig ::
  "Env \<Rightarrow> ConfigCache \<Rightarrow> string option \<Rightarrow> string option
     \<Rightarrow> LoadError + (BaselineConfig \<times> ConfigCache)" where
  "loadConfig env configCache workspaceRoot configPath =
     (let finalConfigPath =
            (case configPath of
               Some p \<Rightarrow> (if p = [] then findConfigFile env workspaceRoot else Some p)
             | None \<Rightarrow> findConfigFile env workspaceRoot)
      in case finalConfigPath of
           None \<Rightarrow> Inr (mergeWithDefaults (JObject []), configCache)
         | Some path \<Rightarrow>
             if path = [] then Inr (mergeWithDefaults (JObject []), configCache)
             else
               (case configCache path of
                  Some cached \<Rightarrow> Inr (cached, configCache)
                | None \<Rightarrow>
                    (case readFileSync env path of
                       None \<Rightarrow> Inl ReadFailed
                     | Some configContent \<Rightarrow>
                         (case jsonParse env configContent of
                            None \<Rightarrow> Inl InvalidJSON
                          | Some parsed \<Rightarrow>
                              (case (if endsWith path ''package.json'' then
                                       (case parsed of
                                          JNull \<Rightarrow> None
                                        | _ \<Rightarrow>
                                            (case getProp parsed ''baselineBuddy'' of
                                               Some v \<Rightarrow>
                                                 Some (if truthy v then v else JObject [])
                                             | None \<Rightarrow> Some (JObject [])))
                                     else Some parsed) of
                                 None \<Rightarrow> Inl PropertyOfNull
                               | Some userConfig \<Rightarrow>
                                   if \<not> validateConfigSchema userConfig then Inl SchemaViolation
                                   else
                                     (let mergedConfig = mergeWithDefaults userConfig in
                                      if baseline_target mergedConfig = Custom
                                         \<and> (case baseline_browserslist mergedConfig of
                                               Some browsers \<Rightarrow> browserslist env browsers = None
                                             | None \<Rightarrow> False)
                                      then Inl InvalidBrowserslist
                                      else Inr (mergedConfig,
                                                configCache(path \<mapsto> mergedConfig))))))))"

subsection \<open>The aggregator\<close>

record DocumentInput =
  doc_filename :: string
  doc_content :: string
  doc_languageId :: "string option"

text \<open>The argument \<open>files\<close>: a list of paths or a list of in-memory documents.\<close>

datatype Files = FilePaths "string list" | Documents "DocumentInput list"

definition toLowerCase :: "string \<Rightarrow> string" where
  "toLowerCase t =
     map (\<lambda>c. case map_of (zip ''ABCDEFGHIJKLMNOPQRSTUVWXYZ'' ''abcdefghijklmnopqrstuvwxyz'') c of
                 Some d \<Rightarrow> d
               | None \<Rightarrow> c) t"

text \<open>\<open>name.split('.').pop()?.toLowerCase() || ''\<close>\<close>

definition extensionOf :: "string \<Rightarrow> string" where
  "extensionOf name = (case rev (split name (CHR ''.'')) of [] \<Rightarrow> [] | e # _ \<Rightarrow> toLowerCase e)"

definition targetOfConfig :: "BaselineConfig \<Rightarrow> BaselineTarget" where
  "targetOfConfig config =
     \<lparr> year = baseline_target config, customBrowserslist = baseline_browserslist config \<rparr>"

text \<open>
  What the aggregator does with the occurrences of one unit: \<open>applyConfiguration\<close>, then
  \<open>filterResults\<close>, then \<open>enhanceResults\<close>.
\<close>

definition processResults ::
  "Env \<Rightarrow> BaselineConfig \<Rightarrow> CompatibilityResult list \<Rightarrow> CompatibilityResult list" where
  "processResults env config fileResults =
     (let configuredResults = applyConfiguration fileResults config;
          baselineFilteredResults =
            filterResults (browserslist env) (targetOfConfig config) configuredResults
      in enhanceResults baselineFilteredResults)"

definition scriptExtensions :: "string list" where
  "scriptExtensions = [''js'', ''jsx'', ''ts'', ''tsx'']"

definition styleExtensions :: "string list" where
  "styleExtensions = [''css'', ''scss'', ''less'']"

text \<open>The parser chosen for a file by its extension, and the occurrences it returns.\<close>

definition fileResultsOf :: "Env \<Rightarrow> string \<Rightarrow> string \<Rightarrow> CompatibilityResult list" where
  "fileResultsOf env path content =
     (let extension = extensionOf path in
      if extension \<in> set scriptExtensions then parseJavaScript (babelParse env) content path
      else if extension \<in> set styleExtensions then parseCSS (postcssParse env) content path
      else [])"

text \<open>One turn of the loop over file paths; a file that cannot be read contributes nothing.\<close>

definition checkFile :: "Env \<Rightarrow> BaselineConfig \<Rightarrow> string \<Rightarrow> CompatibilityResult list" where
  "checkFile env config path =
     (case readFileSync env path of
        None \<Rightarrow> []
      | Some content \<Rightarrow> processResults env config (fileResultsOf env path content))"

text \<open>The parser chosen for a document by its language id or its extension.\<close>

definition isJavaScript :: "DocumentInput \<Rightarrow> bool" where
  "isJavaScript doc =
     (let languageId = map_option toLowerCase (doc_languageId doc);
          extension = extensionOf (doc_filename doc)
      in languageId = Some ''javascript'' \<or> languageId = Some ''typescript''
         \<or> languageId = Some ''javascriptreact'' \<or> languageId = Some ''typescriptreact''
         \<or> extension \<in> set scriptExtensions)"

definition isCSS :: "DocumentInput \<Rightarrow> bool" where
  "isCSS doc =
     (let languageId = map_option toLowerCase (doc_languageId doc);
          extension = extensionOf (doc_filename doc)
      in languageId = Some ''css'' \<or> languageId = Some ''scss'' \<or> languageId = Some ''less''
         \<or> extension \<in> set styleExtensions)"

definition documentResults :: "Env \<Rightarrow> DocumentInput \<Rightarrow> CompatibilityResult list" where
  "documentResults env doc =
     (if isJavaScript doc
        then parseJavaScript (babelParse env) (doc_content doc) (doc_filename doc)
      else if isCSS doc
        then parseCSS (postcssParse env) (doc_content doc) (doc_filename doc)
      else [])"

text \<open>One turn of the loop over in-memory documents.\<close>

definition checkDocument :: "Env \<Rightarrow> BaselineConfig \<Rightarrow> DocumentInput \<Rightarrow> CompatibilityResult list" where
  "checkDocument env config doc = processResults env config (documentResults env doc)"

fun checkFiles ::
  "Env \<Rightarrow> BaselineConfig \<Rightarrow> string list \<Rightarrow> CompatibilityResult list \<Rightarrow> CompatibilityResult list" where
  "checkFiles env config [] results = results"
| "checkFiles env config (path # paths) results =
     checkFiles env config paths (results @ checkFile env config path)"

fun checkDocuments ::
  "Env \<Rightarrow> BaselineConfig \<Rightarrow> DocumentInput list \<Rightarrow> CompatibilityResult list
     \<Rightarrow> CompatibilityResult list" where
  "checkDocuments env config [] results = results"
| "checkDocuments env config (doc # documents) results =
     checkDocuments env config documents (results @ checkDocument env config doc)"

text \<open>\<open>[...new Set(xs)]\<close>: the first occurrence of each element, in order.\<close>

fun uniq :: "string list \<Rightarrow> string list \<Rightarrow> string list" where
  "uniq seen [] = []"
| "uniq seen (x # xs) = (if x \<in> set seen then uniq seen xs else x # uniq (x # seen) xs)"

definition discoverFiles :: "Env \<Rightarrow> BaselineConfig \<Rightarrow> string list" where
  "discoverFiles env config =
     (let includePatterns =
            (case include_patterns config of
               Some ps \<Rightarrow> ps
             | None \<Rightarrow> [''**/*.{js,jsx,ts,tsx,css,scss,less}''])
      in uniq []
           (concat (map (\<lambda>pattern. glob env pattern
                                     (case exclude_patterns config of Some ex \<Rightarrow> ex | None \<Rightarrow> []))
                      includePatterns)))"

definition isFileExcluded :: "Env \<Rightarrow> string \<Rightarrow> string list \<Rightarrow> bool" where
  "isFileExcluded env filePath excludePatterns =
     list_ex (\<lambda>pattern. minimatch env filePath pattern) excludePatterns"

definition checkPaths :: "Env \<Rightarrow> BaselineConfig \<Rightarrow> string list \<Rightarrow> CompatibilityResult list" where
  "checkPaths env config files =
     (let filePaths =
            (if files = [] then discoverFiles env config
             else
               (let excludePatterns =
                      (case exclude_patterns config of Some ex \<Rightarrow> ex | None \<Rightarrow> [])
                in if excludePatterns \<noteq> []
                   then filter (\<lambda>f. \<not> isFileExcluded env f excludePatterns) files
                   else files))
      in checkFiles env config filePaths [])"

definition checkCompatibilityWithConfig ::
  "Env \<Rightarrow> Files \<Rightarrow> BaselineConfig \<Rightarrow> CompatibilityResult list" where
  "checkCompatibilityWithConfig env files config =
     (case files of
        FilePaths paths \<Rightarrow> checkPaths env config paths
      | Documents documents \<Rightarrow>
          if documents = [] then checkPaths env config []
          else checkDocuments env config documents [])"

text \<open>
  \<open>checkCompatibility\<close> builds a new \<open>ConfigLoader\<close>, whose cache is empty; a failure of
  \<open>loadConfig\<close> is the failure of the call.
\<close>

definition checkCompatibility ::
  "Env \<Rightarrow> Files \<Rightarrow> string option \<Rightarrow> string option \<Rightarrow> LoadError + CompatibilityResult list" where
  "checkCompatibility env files workspaceRoot configOption =
     (case loadConfig env Map.empty workspaceRoot configOption of
        Inl e \<Rightarrow> Inl e
      | Inr (config, c) \<Rightarrow> Inr (checkCompatibilityWithConfig env files config))"

subsection \<open>Auxiliary definitions for the statements below\<close>

text \<open>
  What \<open>applyConfiguration\<close> and \<open>enhanceResults\<close> together make of an occurrence that
  survives both filters: the configured severity and the annotated message.
\<close>

definition finalOf :: "BaselineConfig \<Rightarrow> CompatibilityResult \<Rightarrow> CompatibilityResult" where
  "finalOf config r =
     r\<lparr>severity := getFeatureSeverity (feature r) config,
       message := message r @ '' - '' @ getBaselineMessage (feature r)\<rparr>"

text \<open>An environment with no files, whose parsers reject every text.\<close>

definition example_env :: Env where
  "example_env =
     \<lparr> browserslist = (\<lambda>query. Some []),
       babelParse = (\<lambda>content. None),
       postcssParse = (\<lambda>content from. None),
       readFileSync = (\<lambda>path. None),
       existsSync = (\<lambda>path. False),
       jsonParse = (\<lambda>t. None),
       pathJoin = (\<lambda>dir name. dir @ ''/'' @ name),
       cwd = ''/work'',
       glob = (\<lambda>pattern ignored. []),
       minimatch = (\<lambda>path pattern. False) \<rparr>"

definition occurrence :: "string \<Rightarrow> CompatibilityResult" where
  "occurrence feat = createResult ''app.js'' 1 0 feat ''found'' Warning None"

text \<open>
  The coverage rule in the words of the specification. A resolved entry \<open>engine version\<close>
  is read as the pair of its engine, under the catalog's name for it, and its version number;
  an entry without a version has the version \<open>NaN\<close>. A pair counts as supported when the
  catalog records a minimum version for the engine and that minimum is at most the pair's
  version.
\<close>

definition pairOf :: "string \<Rightarrow> string \<times> jsnum" where
  "pairOf browser =
     (case split browser (CHR '' '') of
        [] \<Rightarrow> (normalizeBrowserName [], NaN)
      | [name] \<Rightarrow> (normalizeBrowserName name, NaN)
      | name # version # _ \<Rightarrow> (normalizeBrowserName name, parseFloat (Some version)))"

definition pairSupported :: "WebFeature \<Rightarrow> string \<times> jsnum \<Rightarrow> bool" where
  "pairSupported webFeature p =
     (case map_of (browser_support webFeature) (fst p) of
        None \<Rightarrow> False
      | Some minimum \<Rightarrow> js_le (parseFloat (Some minimum)) (snd p))"

text \<open>Two resolved lists of twenty entries and the catalog entry they are measured against.\<close>

definition browsers19 :: "string list" where
  "browsers19 =
     [''chrome 100'', ''chrome 101'', ''chrome 102'', ''chrome 103'', ''chrome 104'',
      ''chrome 105'', ''chrome 106'', ''chrome 107'', ''chrome 108'',
      ''firefox 100'', ''firefox 101'', ''firefox 102'', ''firefox 103'', ''firefox 104'',
      ''and_ff 105'', ''safari 15.4'', ''safari 15.5'', ''safari 16.0'', ''ios_saf 16.1'',
      ''edge 108'']"

definition browsers18 :: "string list" where
  "browsers18 =
     [''chrome 100'', ''chrome 101'', ''chrome 102'', ''chrome 103'', ''chrome 104'',
      ''chrome 105'', ''chrome 106'', ''chrome 107'', ''chrome 108'',
      ''firefox 100'', ''firefox 101'', ''firefox 102'', ''firefox 103'', ''firefox 104'',
      ''and_ff 105'', ''ios_saf 15.2-15.3'', ''safari 15.5'', ''safari 16.0'', ''ios_saf 16.1'',
      ''edge 108'']"

definition array_at :: WebFeature where
  "array_at =
     \<lparr> wf_id = ''array-at'', wf_baseline = \<lparr> status = Newly, since = Some ''2022-03'' \<rparr>,
       browser_support = [(''chrome'', ''92''), (''firefox'', ''90''), (''safari'', ''15.4'')],
       mdn_url = Some ''https://developer.mozilla.org/en-US/docs/Web/JavaScript/Reference/Global_Objects/Array/at'' \<rparr>"

text \<open>The built-in defaults: what \<open>loadConfig\<close> returns when no configuration file is found.\<close>

definition default_config :: BaselineConfig where
  "default_config = mergeWithDefaults (JObject [])"

text \<open>
  The script \<open>navigator.share(data);\<close>: its tree (file, program and expression statement
  around a call of a member expression), an environment whose script parser returns it, and
  the occurrence the member-expression visitor pushes for it.
\<close>

definition share_ast :: Node where
  "share_ast =
     OtherNode (Some (1, 0))
       [OtherNode (Some (1, 0))
          [OtherNode (Some (1, 0))
             [CallExpression (Some (1, 0))
                (MemberExpression (Some (1, 0))
                   (Identifier (Some (1, 0)) ''navigator'')
                   (Identifier (Some (1, 10)) ''share''))
                [Identifier (Some (1, 16)) ''data'']]]]"

definition share_env :: Env where
  "share_env = example_env\<lparr> babelParse := (\<lambda>content. Some share_ast) \<rparr>"

definition share_doc :: DocumentInput where
  "share_doc =
     \<lparr> doc_filename = ''share.js'', doc_content = ''navigator.share(data);'',
       doc_languageId = Some ''javascript'' \<rparr>"

definition share_occurrence :: CompatibilityResult where
  "share_occurrence =
     \<lparr> file_name = ''share.js'', line = 1, column = 0, feature = ''web-share-api'',
       message = ''navigator.share() - Web Share API is not widely supported'',
       severity = Warning, baseline = ''limited'', browserSupport = [], fix_list = None \<rparr>"

text \<open>The stylesheet \<open>@layer base;\<close> and its occurrence.\<close>

definition layer_env :: Env where
  "layer_env =
     example_env\<lparr> postcssParse :=
       (\<lambda>content from. Some [CssAtRule (Some (1, 1)) ''layer'' ''base'' []]) \<rparr>"

definition layer_doc :: DocumentInput where
  "layer_doc =
     \<lparr> doc_filename = ''base.css'', doc_content = ''@layer base;'', doc_languageId = Some ''css'' \<rparr>"

definition layer_occurrence :: CompatibilityResult where
  "layer_occurrence =
     \<lparr> file_name = ''base.css'', line = 1, column = 1, feature = ''css-cascade-layers'',
       message = ''@layer cascade layers are not widely supported'',
       severity = Warning, baseline = ''limited'',
       browserSupport = [''chrome'', ''firefox'', ''safari''], fix_list = None \<rparr>"

text \<open>
  The stylesheet \<open>.card:has(.x) {}\<close> under a configuration whose \<open>rules\<close> entry for
  \<open>css-has-selector\<close> says \<open>error\<close> and whose \<open>severity.features\<close> entry says
  \<open>info\<close>, with a resolver that returns four engines for every query, and the diagnostic
  the aggregator returns.
\<close>

definition has_env :: Env where
  "has_env =
     example_env\<lparr>
       postcssParse := (\<lambda>content from. Some [CssRule (Some (1, 1)) ''.card:has(.x)'' []]),
       browserslist := (\<lambda>query. Some [''chrome 105'', ''firefox 105'', ''safari 15.4'', ''edge 105'']) \<rparr>"

definition has_doc :: DocumentInput where
  "has_doc =
     \<lparr> doc_filename = ''card.css'', doc_content = ''.card:has(.x) {}'', doc_languageId = Some ''css'' \<rparr>"

definition has_config_json :: Json where
  "has_config_json =
     JObject
       [(''baseline'', JObject [(''target'', JString ''2024'')]),
        (''severity'', JObject [(''default'', JString ''warning''),
                                (''features'', JObject [(''css-has-selector'', JString ''info'')])]),
        (''rules'', JObject [(''css-has-selector'', JObject [(''severity'', JString ''error'')])])]"

definition has_config :: BaselineConfig where
  "has_config = mergeWithDefaults has_config_json"

definition has_diagnostic :: CompatibilityResult where
  "has_diagnostic =
     \<lparr> file_name = ''card.css'', line = 1, column = 1, feature = ''css-has-selector'',
       message = '':has() selector is not widely supported - Newly supported since 2023-12 - consider your browser targets'',
       severity = Error, baseline = ''limited'',
       browserSupport = [''chrome'', ''firefox'', ''safari''], fix_list = None \<rparr>"

text \<open>
  A document is invalid for an environment when the parser the aggregator selects for it
  throws on its content.
\<close>

definition documentInvalid :: "Env \<Rightarrow> DocumentInput \<Rightarrow> bool" where
  "documentInvalid env doc =
     (if isJavaScript doc then babelParse env (doc_content doc) = None
      else isCSS doc \<and> postcssParse env (doc_content doc) (doc_filename doc) = None)"

text \<open>
  An environment whose script parser accepts \<open>navigator.share(data);\<close> and rejects every
  other text, and a document with a syntax error.
\<close>

definition mixed_env :: Env where
  "mixed_env =
     example_env\<lparr> babelParse :=
       (\<lambda>content. if content = ''navigator.share(data);'' then Some share_ast else None) \<rparr>"

definition invalid_doc :: DocumentInput where
  "invalid_doc =
     \<lparr> doc_filename = ''invalid.js'', doc_content = ''const invalid = {missing: quote'' @ [CHR 0x22],
       doc_languageId = Some ''javascript'' \<rparr>"

text \<open>
  Two user configurations with the target \<open>custom\<close>, one without a query list and one
  with an empty one, and an environment in which \<open>baseline.config.json\<close> exists in the
  working directory and parses to a given value.
\<close>

definition custom_without_queries :: Json where
  "custom_without_queries =
     JObject
       [(''baseline'', JObject [(''target'', JString ''custom'')]),
        (''severity'', JObject [(''default'', JString ''warning'')])]"

definition custom_empty_queries :: Json where
  "custom_empty_queries =
     JObject
       [(''baseline'', JObject [(''target'', JString ''custom''), (''browserslist'', JArray [])]),
        (''severity'', JObject [(''default'', JString ''warning'')])]"

definition config_env :: "Json \<Rightarrow> Env" where
  "config_env userConfig =
     example_env\<lparr>
       existsSync := (\<lambda>path. path = ''/work/baseline.config.json''),
       readFileSync := (\<lambda>path. if path = ''/work/baseline.config.json'' then Some ''{...}'' else None),
       jsonParse := (\<lambda>t. if t = ''{...}'' then Some userConfig else None) \<rparr>"

text \<open>
  The script \<open>const x = a?.b ?? c;\<close>: a file, a program, a variable declaration and a
  declarator whose initialiser is a logical expression over an optional member expression.
  Both expressions start at column 10 of line 1.
\<close>

definition chain_ast :: Node where
  "chain_ast =
     OtherNode (Some (1, 0))
       [OtherNode (Some (1, 0))
          [OtherNode (Some (1, 0))
             [OtherNode (Some (1, 6))
                [Identifier (Some (1, 6)) ''x'',
                 LogicalExpression (Some (1, 10)) ''??''
                   (OptionalMemberExpression (Some (1, 10))
                      (Identifier (Some (1, 10)) ''a'')
                      (Identifier (Some (1, 13)) ''b''))
                   (Identifier (Some (1, 18)) ''c'')]]]]"

definition chain_env :: Env where
  "chain_env = example_env\<lparr> babelParse := (\<lambda>content. Some chain_ast) \<rparr>"

definition chain_doc :: DocumentInput where
  "chain_doc =
     \<lparr> doc_filename = ''app.js'', doc_content = ''const x = a?.b ?? c;'',
       doc_languageId = Some ''javascript'' \<rparr>"

text \<open>
  Scripts made of expression statements \<open>a?.b;\<close>, one per line, with a suppression marker
  behind the first statement or alone on the first line, and a stylesheet with a marker behind
  its first rule.
\<close>

definition statement :: "int \<Rightarrow> string \<Rightarrow> string \<Rightarrow> Node" where
  "statement lineNo ob pr =
     OtherNode (Some (lineNo, 0))
       [OptionalMemberExpression (Some (lineNo, 0))
          (Identifier (Some (lineNo, 0)) ob) (Identifier (Some (lineNo, 3)) pr)]"

definition program :: "Node list \<Rightarrow> Node" where
  "program body = OtherNode (Some (1, 0)) [OtherNode (Some (1, 0)) body]"

definition inline_marker_text :: string where
  "inline_marker_text = ''a?.b; // baseline-buddy-ignore\<newline>c?.d;''"

definition own_line_marker_text :: string where
  "own_line_marker_text = ''// baseline-buddy-ignore\<newline>a?.b;\<newline>c?.d;\<newline>e?.f;''"

definition inline_marker_css :: string where
  "inline_marker_css = ''.a:has(.b) {} /* baseline-buddy-ignore */\<newline>.c:has(.d) {}''"

text \<open>
  The list \<open>filePaths\<close> the loop over file paths runs through: the discovered files when no
  path is given, otherwise the given paths that no exclude pattern matches.
\<close>

definition filePathsOf :: "Env \<Rightarrow> BaselineConfig \<Rightarrow> string list \<Rightarrow> string list" where
  "filePathsOf env config files =
     (if files = [] then discoverFiles env config
      else
        (let excludePatterns = (case exclude_patterns config of Some ex \<Rightarrow> ex | None \<Rightarrow> [])
         in if excludePatterns \<noteq> []
            then filter (\<lambda>f. \<not> isFileExcluded env f excludePatterns) files
            else files))"

text \<open>
  A file is invalid for an environment when it can be read and the parser the aggregator
  selects for its extension throws on its content.
\<close>

definition fileInvalid :: "Env \<Rightarrow> string \<Rightarrow> bool" where
  "fileInvalid env path =
     (case readFileSync env path of
        None \<Rightarrow> False
      | Some content \<Rightarrow>
          if extensionOf path \<in> set scriptExtensions then babelParse env content = None
          else extensionOf path \<in> set styleExtensions
               \<and> postcssParse env content path = None)"

text \<open>
  An environment with three files: a script, a script with a syntax error and a stylesheet.
  No exclude pattern matches them. The occurrences of the two valid files carry their paths.
\<close>

definition file_env :: Env where
  "file_env =
     example_env\<lparr>
       readFileSync :=
         (\<lambda>path. if path = ''src/share.js'' then Some ''navigator.share(data);''
                  else if path = ''src/base.css'' then Some ''@layer base;''
                  else if path = ''src/invalid.js'' then Some (doc_content invalid_doc)
                  else None),
       babelParse :=
         (\<lambda>content. if content = ''navigator.share(data);'' then Some share_ast else None),
       postcssParse :=
         (\<lambda>content from. if content = ''@layer base;''
                          then Some [CssAtRule (Some (1, 1)) ''layer'' ''base'' []] else None) \<rparr>"

definition example_paths :: "string list" where
  "example_paths = [''src/share.js'', ''src/invalid.js'', ''src/base.css'']"

definition layer_file_occurrence :: CompatibilityResult where
  "layer_file_occurrence = layer_occurrence\<lparr> file_name := ''src/base.css'' \<rparr>"

definition share_file_occurrence :: CompatibilityResult where
  "share_file_occurrence = share_occurrence\<lparr> file_name := ''src/share.js'' \<rparr>"

section \<open>Properties\<close>

subsection \<open>The aggregator as a composition\<close>

lemma checkDocuments_acc:
  "checkDocuments env config docs acc = acc @ concat (map (checkDocument env config) docs)"
  by (induction docs arbitrary: acc) simp_all

lemma checkFiles_acc:
  "checkFiles env config paths acc = acc @ concat (map (checkFile env config) paths)"
  by (induction paths arbitrary: acc) simp_all

lemma processResults_eq:
  "processResults env config rs =
     map (finalOf config)
       (filter (\<lambda>r. \<not> shouldIgnoreFeature (feature r) config
                   \<and> \<not> isFeatureBaseline (browserslist env) (targetOfConfig config) (feature r)) rs)"
  by (induction rs)
     (simp_all add: processResults_def enhanceResults_def filterResults_def
        applyConfiguration_def finalOf_def)

lemma feature_finalOf [simp]: "feature (finalOf config r) = feature r"
  by (simp add: finalOf_def)

lemma severity_finalOf [simp]: "severity (finalOf config r) = getFeatureSeverity (feature r) config"
  by (simp add: finalOf_def)

lemma baseline_finalOf [simp]: "baseline (finalOf config r) = baseline r"
  by (simp add: finalOf_def)

lemma processResults_set:
  "d \<in> set (processResults env config rs) \<longleftrightarrow>
     (\<exists>r \<in> set rs. d = finalOf config r
        \<and> \<not> shouldIgnoreFeature (feature r) config
        \<and> \<not> isFeatureBaseline (browserslist env) (targetOfConfig config) (feature r))"
  by (auto simp: processResults_eq)

lemma aggregator_origin:
  assumes "d \<in> set (checkCompatibilityWithConfig env files config)"
  shows "\<exists>rs. d \<in> set (processResults env config rs)"
  using assms
  by (auto simp: checkCompatibilityWithConfig_def checkPaths_def checkFiles_acc checkDocuments_acc
        checkFile_def checkDocument_def Let_def split: Files.splits if_splits option.splits)

lemma aggregator_final:
  assumes "d \<in> set (checkCompatibilityWithConfig env files config)"
  shows "\<not> shouldIgnoreFeature (feature d) config
     \<and> \<not> isFeatureBaseline (browserslist env) (targetOfConfig config) (feature d)
     \<and> severity d = getFeatureSeverity (feature d) config"
proof -
  from aggregator_origin [OF assms] obtain rs where "d \<in> set (processResults env config rs)" ..
  then show ?thesis by (auto simp: processResults_set)
qed

lemma documents_contribute:
  assumes "doc \<in> set documents" and "d \<in> set (processResults env config (documentResults env doc))"
  shows "d \<in> set (checkCompatibilityWithConfig env (Documents documents) config)"
  using assms
  by (auto simp: checkCompatibilityWithConfig_def checkDocuments_acc checkDocument_def)

subsection \<open>Facts about the catalog\<close>

lemma widely_isFeatureBaseline:
  assumes "lookupFeature featureId = Some f" and "status f = Widely"
  shows "isFeatureBaseline bl target featureId"
proof -
  from assms(1) have "\<not> (map_of baselineFeatures featureId = None
                         \<and> map_of webFeaturesData featureId = None)"
    by (auto simp: lookupFeature_def split: option.splits)
  with assms show ?thesis
    by (simp add: isFeatureBaseline_def Let_def)
qed

lemma lookup_fetch: "lookupFeature ''fetch'' = Some \<lparr> status = Widely, since = Some ''2017-03'' \<rparr>"
  by (simp add: lookupFeature_def baselineFeatures_def)

subsection \<open>The coverage computation\<close>

lemma parseFloat_empty: "parseFloat (Some []) = NaN"
  by (simp add: parseFloat_def trimStart_def)

lemma parseFloat_None: "parseFloat None = NaN"
  by (simp add: parseFloat_def)

lemma browserSupported_pair: "browserSupported webFeature browser = pairSupported webFeature (pairOf browser)"
  by (auto simp: browserSupported_def pairSupported_def pairOf_def Let_def parseFloat_empty parseFloat_None
       split: list.splits option.splits)

lemma countSupported_filter:
  "countSupported webFeature browsers n = n + length (filter (browserSupported webFeature) browsers)"
  by (induction browsers arbitrary: n) simp_all

lemma supported_count_filter:
  "length (filter (browserSupported webFeature) browsers)
     = length (filter (pairSupported webFeature) (map pairOf browsers))"
  by (induction browsers) (simp_all add: browserSupported_pair)

lemma ratio_threshold:
  assumes "n \<noteq> 0"
  shows "(95 / 100 \<le> rat_of_nat s / rat_of_nat n) \<longleftrightarrow> 19 * n \<le> 20 * s"
proof -
  from assms have pos: "(0::rat) < of_nat n" by simp
  have "(95 / 100 \<le> rat_of_nat s / rat_of_nat n) \<longleftrightarrow> (rat_of_nat (19 * n) \<le> rat_of_nat (20 * s))"
    using pos by (simp add: field_simps)
  also have "\<dots> \<longleftrightarrow> 19 * n \<le> 20 * s"
    by (simp only: of_nat_le_iff)
  finally show ?thesis .
qed

text \<open>
  The numbers of the model are exact, those of the program are rounded to binary64. The
  next two lemmas show that this makes no difference to the coverage test. For every
  rounding function that is monotone and has a relative error of at most \<open>2^-53\<close>, as
  rounding to the nearest binary64 value has on the range considered, the rounded quotient
  of two counters reaches the rounded constant 0.95 exactly when the exact quotient reaches
  0.95, for every list of fewer than \<open>2^32\<close> entries.
\<close>

lemma rounding_keeps_gap:
  fixes rnd :: "rat \<Rightarrow> rat"
  assumes err: "\<And>x. \<bar>rnd x - x\<bar> \<le> \<bar>x\<bar> / 2 ^ 53"
      and a: "0 \<le> a" "a \<le> m" and b: "0 \<le> b" "b \<le> m"
      and gap: "a + m / 2 ^ 52 < b"
  shows "rnd a < rnd b"
proof -
  have "rnd a - a \<le> \<bar>rnd a - a\<bar>" by simp
  also have "\<dots> \<le> \<bar>a\<bar> / 2 ^ 53" by (rule err)
  also have "\<dots> \<le> m / 2 ^ 53" using a by (simp add: divide_right_mono)
  finally have ua: "rnd a \<le> a + m / 2 ^ 53" by simp
  have "b - rnd b \<le> \<bar>rnd b - b\<bar>" by simp
  also have "\<dots> \<le> \<bar>b\<bar> / 2 ^ 53" by (rule err)
  also have "\<dots> \<le> m / 2 ^ 53" using b by (simp add: divide_right_mono)
  finally have lb: "b - m / 2 ^ 53 \<le> rnd b" by simp
  have "m / 2 ^ 53 + m / 2 ^ 53 = m / (2 ^ 52 :: rat)" by simp
  with gap have "a + m / 2 ^ 53 < b - m / 2 ^ 53" by linarith
  with ua lb show ?thesis by linarith
qed

lemma rounding_keeps_threshold:
  fixes rnd :: "rat \<Rightarrow> rat"
  assumes mono: "\<And>x y. x \<le> y \<Longrightarrow> rnd x \<le> rnd y"
      and err: "\<And>x. \<bar>rnd x - x\<bar> \<le> \<bar>x\<bar> / 2 ^ 53"
      and n: "0 < n" "n < 2 ^ 32" and s: "s \<le> n"
  shows "rnd (95 / 100) \<le> rnd (rat_of_nat s / rat_of_nat n) \<longleftrightarrow> 19 * n \<le> 20 * s"
proof (cases "19 * n \<le> 20 * s")
  case True
  from n have "n \<noteq> 0" by simp
  from ratio_threshold [OF this, of s] True
  have "95 / 100 \<le> rat_of_nat s / rat_of_nat n" by simp
  then show ?thesis using True mono by simp
next
  case False
  then have lt: "20 * s + 1 \<le> 19 * n" by simp
  let ?x = "rat_of_nat s / rat_of_nat n"
  have pos: "(0::rat) < rat_of_nat n" using n by simp
  have x0: "0 \<le> ?x" by simp
  have x1: "?x \<le> 1" using s pos by simp
  have "rat_of_nat (20 * s + 1) \<le> rat_of_nat (19 * n)"
    using lt by (simp only: of_nat_le_iff)
  then have "20 * rat_of_nat s + 1 \<le> 19 * rat_of_nat n" by simp
  then have "?x + 1 / (20 * rat_of_nat n) \<le> 19 / 20"
    using pos by (simp add: field_simps)
  moreover have "(1::rat) / 2 ^ 52 < 1 / (20 * rat_of_nat n)"
  proof -
    have "rat_of_nat n < rat_of_nat (2 ^ 32)" using n(2) by (simp only: of_nat_less_iff)
    then have "20 * rat_of_nat n < 20 * 2 ^ 32" by simp
    also have "\<dots> < (2 ^ 52 :: rat)" by simp
    finally show ?thesis using pos by (simp add: field_simps)
  qed
  ultimately have gap: "?x + 1 / 2 ^ 52 < 95 / 100" by simp
  have "rnd ?x < rnd (95 / 100)"
    by (rule rounding_keeps_gap [where m = 1, OF err x0 x1 _ _ gap]) simp_all
  then show ?thesis using False by simp
qed

lemma coverage_threshold:
  assumes "s \<le> n"
  shows "js_ge (js_div_count s n) (Fin (95 / 100)) \<longleftrightarrow> n \<noteq> 0 \<and> 19 * n \<le> 20 * s"
proof (cases "n = 0")
  case True
  with assms show ?thesis by (simp add: js_ge_def js_div_count_def)
next
  case False
  then show ?thesis using ratio_threshold [OF False, of s]
    by (simp add: js_ge_def js_div_count_def)
qed

lemma catalog_not_widely:
  "list_all (\<lambda>(k, w). case lookupFeature k of None \<Rightarrow> False | Some f \<Rightarrow> status f \<noteq> Widely)
     webFeaturesData"
  by code_simp

lemma webFeature_not_widely:
  assumes "map_of webFeaturesData featureId = Some webFeature"
  shows "\<exists>f. lookupFeature featureId = Some f \<and> status f \<noteq> Widely"
proof -
  from assms have "(featureId, webFeature) \<in> set webFeaturesData"
    by (rule map_of_SomeD)
  with catalog_not_widely show ?thesis
    by (auto simp: list_all_iff split: option.splits)
qed

lemma coverage_eq:
  assumes "map_of webFeaturesData featureId = Some webFeature" and "bl query = Some browsers"
  shows "calculateBrowserslistCoverage bl featureId query \<longleftrightarrow>
           browsers \<noteq> []
           \<and> 19 * length browsers
               \<le> 20 * length (filter (pairSupported webFeature) (map pairOf browsers))"
proof -
  have le: "length (filter (browserSupported webFeature) browsers) \<le> length browsers"
    by (rule length_filter_le)
  show ?thesis
    using assms coverage_threshold [OF le]
    by (simp add: calculateBrowserslistCoverage_def countSupported_filter supported_count_filter)
qed

lemma custom_is_coverage:
  assumes "lookupFeature featureId = Some f" and "status f \<noteq> Widely"
  shows "isFeatureBaseline bl \<lparr> year = Custom, customBrowserslist = Some query \<rparr> featureId
           = calculateBrowserslistCoverage bl featureId query"
  using assms
  by (cases "map_of baselineFeatures featureId"; cases "map_of webFeaturesData featureId")
     (simp_all add: isFeatureBaseline_def Let_def lookupFeature_def)

lemma array_at_entry: "map_of webFeaturesData ''array-at'' = Some array_at"
  by code_simp

lemma count19: "length (filter (pairSupported array_at) (map pairOf browsers19)) = 19"
  by code_simp

lemma count18: "length (filter (pairSupported array_at) (map pairOf browsers18)) = 18"
  by code_simp

subsection \<open>Severity resolution and the built-in defaults\<close>

lemma getFeatureSeverity_rule:
  "ruleSeverityOf config featureId = Some (Level s) \<Longrightarrow> getFeatureSeverity featureId config = s"
  by (simp add: getFeatureSeverity_def)

lemma getFeatureSeverity_feature:
  "ruleSeverityOf config featureId = None \<Longrightarrow> featureSeverityOf config featureId = Some (Level s)
     \<Longrightarrow> getFeatureSeverity featureId config = s"
  by (simp add: getFeatureSeverity_def)

lemma getFeatureSeverity_default:
  "ruleSeverityOf config featureId = None \<Longrightarrow> featureSeverityOf config featureId = None
     \<Longrightarrow> getFeatureSeverity featureId config = severity_default config"
  by (simp add: getFeatureSeverity_def)

lemma shouldIgnoreFeature_iff:
  "shouldIgnoreFeature featureId config \<longleftrightarrow>
     ruleSeverityOf config featureId = Some Ignore \<or> featureSeverityOf config featureId = Some Ignore"
  by (simp add: shouldIgnoreFeature_def)

lemma default_config_no_override:
  "ruleSeverityOf default_config featureId = None
   \<and> featureSeverityOf default_config featureId = None
   \<and> severity_default default_config = Warning
   \<and> baseline_target default_config = Y2024
   \<and> baseline_browserslist default_config = None"
  by (simp add: default_config_def mergeWithDefaults_def ruleSeverityOf_def featureSeverityOf_def
        subProp_def getProp_def)

lemma survivor_in_output:
  assumes "doc \<in> set documents" and "r \<in> set (documentResults env doc)"
      and "\<not> shouldIgnoreFeature (feature r) config"
      and "\<not> isFeatureBaseline (browserslist env) (targetOfConfig config) (feature r)"
  shows "finalOf config r \<in> set (checkCompatibilityWithConfig env (Documents documents) config)"
proof -
  have "finalOf config r \<in> set (processResults env config (documentResults env doc))"
    using assms(2-4) by (auto simp: processResults_set)
  with assms(1) show ?thesis by (rule documents_contribute)
qed

lemma unknown_not_baseline:
  assumes "map_of baselineFeatures featureId = None" and "map_of webFeaturesData featureId = None"
  shows "\<not> isFeatureBaseline bl target featureId"
  using assms by (simp add: isFeatureBaseline_def)

lemma unknown_message:
  assumes "map_of baselineFeatures featureId = None" and "map_of webFeaturesData featureId = None"
  shows "getBaselineMessage featureId = ''Unknown baseline status''"
  using assms by (simp add: getBaselineMessage_def lookupFeature_def)

subsection \<open>Evaluation of the example units\<close>

lemma has_output:
  "checkCompatibilityWithConfig has_env (Documents [has_doc]) has_config = [has_diagnostic]"
  by code_simp

lemma has_rule: "ruleSeverityOf has_config ''css-has-selector'' = Some (Level Error)"
  by code_simp

lemma has_feature: "featureSeverityOf has_config ''css-has-selector'' = Some (Level Info)"
  by code_simp

lemma layer_results: "documentResults layer_env layer_doc = [layer_occurrence]"
  by code_simp

lemma layer_lookup: "lookupFeature ''css-cascade-layers'' = Some \<lparr> status = Limited, since = None \<rparr>"
  by code_simp

lemma layer_not_baseline:
  "\<not> isFeatureBaseline bl \<lparr> year = Y2024, customBrowserslist = None \<rparr> ''css-cascade-layers''"
  using layer_lookup
  by (simp add: isFeatureBaseline_def Let_def lookupFeature_def split: option.splits)

lemma layer_output:
  "map (\<lambda>d. (feature d, severity d))
     (checkCompatibilityWithConfig layer_env (Documents [layer_doc]) default_config)
   = [(''css-cascade-layers'', Warning)]"
  by code_simp

lemma share_results: "documentResults share_env share_doc ! 1 = share_occurrence"
  by code_simp

lemma share_length: "length (documentResults share_env share_doc) = 2"
  by code_simp

lemma share_unknown:
  "map_of baselineFeatures ''web-share-api'' = None \<and> map_of webFeaturesData ''web-share-api'' = None"
  by code_simp

lemma share_output:
  "map (\<lambda>d. (feature d, severity d, baseline d))
     (checkCompatibilityWithConfig share_env (Documents [share_doc]) default_config)
   = [(''web-share'', Warning, ''limited''), (''web-share-api'', Warning, ''limited'')]"
  by code_simp

subsection \<open>Units whose parse fails\<close>

lemma documentInvalid_results:
  assumes "documentInvalid env doc"
  shows "documentResults env doc = []"
  using assms
  by (auto simp: documentInvalid_def documentResults_def parseJavaScript_def parseCSS_def
        split: if_splits)

lemma processResults_Nil: "processResults env config [] = []"
  by (simp add: processResults_eq)

lemma invalid_doc_invalid: "documentInvalid mixed_env invalid_doc"
  by code_simp

lemma mixed_rest:
  "length (checkDocuments mixed_env default_config [share_doc] []) = 2"
  by code_simp

subsection \<open>Loading a configuration\<close>

lemma without_queries_valid: "validateConfigSchema custom_without_queries"
  by code_simp

lemma without_queries_loaded:
  "\<not> isl (loadConfig (config_env custom_without_queries) Map.empty None None)
   \<and> baseline_target (fst (projr (loadConfig (config_env custom_without_queries) Map.empty None None)))
       = Custom
   \<and> baseline_browserslist
        (fst (projr (loadConfig (config_env custom_without_queries) Map.empty None None))) = None"
  by code_simp

lemma empty_queries_loaded:
  "\<not> isl (loadConfig (config_env custom_empty_queries) Map.empty None None)
   \<and> baseline_target (fst (projr (loadConfig (config_env custom_empty_queries) Map.empty None None)))
       = Custom
   \<and> baseline_browserslist
        (fst (projr (loadConfig (config_env custom_empty_queries) Map.empty None None))) = Some []"
  by code_simp

lemma loadConfig_valid:
  assumes "path \<noteq> []" and "\<not> endsWith path ''package.json''" and "configCache path = None"
      and "readFileSync env path = Some configContent"
      and "jsonParse env configContent = Some userConfig"
      and "validateConfigSchema userConfig"
  shows "loadConfig env configCache workspaceRoot (Some path) =
           (let mergedConfig = mergeWithDefaults userConfig in
            if baseline_target mergedConfig = Custom
               \<and> (case baseline_browserslist mergedConfig of
                     Some browsers \<Rightarrow> browserslist env browsers = None
                   | None \<Rightarrow> False)
            then Inl InvalidBrowserslist
            else Inr (mergedConfig, configCache(path \<mapsto> mergedConfig)))"
  using assms by (simp add: loadConfig_def Let_def)

lemma merged_target:
  assumes "subProp userConfig ''baseline'' ''target'' = Some (JString ''custom'')"
  shows "baseline_target (mergeWithDefaults userConfig) = Custom"
  using assms by (simp add: mergeWithDefaults_def targetOfString_def)

lemma merged_queries_missing:
  assumes "subProp userConfig ''baseline'' ''browserslist'' = None"
  shows "baseline_browserslist (mergeWithDefaults userConfig) = None"
  using assms by (simp add: mergeWithDefaults_def)

lemma merged_queries_empty:
  assumes "subProp userConfig ''baseline'' ''browserslist'' = Some (JArray [])"
  shows "baseline_browserslist (mergeWithDefaults userConfig) = Some []"
  using assms by (simp add: mergeWithDefaults_def stringsOf_def)

lemma config_env_reads:
  "readFileSync (config_env userConfig) ''/work/baseline.config.json'' = Some ''{...}''
   \<and> jsonParse (config_env userConfig) ''{...}'' = Some userConfig
   \<and> browserslist (config_env userConfig) [] = Some []"
  by (simp add: config_env_def example_env_def)

lemma config_path_plain:
  "''/work/baseline.config.json'' \<noteq> [] \<and> \<not> endsWith ''/work/baseline.config.json'' ''package.json''"
  by code_simp

lemma custom_targets:
  "subProp custom_without_queries ''baseline'' ''target'' = Some (JString ''custom'')
   \<and> subProp custom_without_queries ''baseline'' ''browserslist'' = None
   \<and> subProp custom_empty_queries ''baseline'' ''target'' = Some (JString ''custom'')
   \<and> subProp custom_empty_queries ''baseline'' ''browserslist'' = Some (JArray [])
   \<and> validateConfigSchema custom_empty_queries"
  by code_simp

subsection \<open>The year comparison\<close>

lemma chain_lookup:
  "map_of baselineFeatures ''optional-chaining'' = Some \<lparr> status = Newly, since = Some ''2022-03'' \<rparr>
   \<and> map_of baselineFeatures ''nullish-coalescing'' = Some \<lparr> status = Newly, since = Some ''2022-03'' \<rparr>
   \<and> map_of webFeaturesData ''optional-chaining'' = None
   \<and> map_of webFeaturesData ''nullish-coalescing'' = None"
  by code_simp

lemma since_2022_closed:
  "js_le (parseInt (case split ''2022-03'' (CHR ''-'') of [] \<Rightarrow> None | y # _ \<Rightarrow> Some y))
         (parseInt (Some (yearString Y2024)))
   \<and> js_le (parseInt (case split ''2022-03'' (CHR ''-'') of [] \<Rightarrow> None | y # _ \<Rightarrow> Some y))
           (parseInt (Some (yearString Y2025)))"
  by code_simp

lemma since_2022:
  "t \<noteq> Custom \<Longrightarrow>
     js_le (parseInt (case split ''2022-03'' (CHR ''-'') of [] \<Rightarrow> None | y # _ \<Rightarrow> Some y))
           (parseInt (Some (yearString t)))"
  using since_2022_closed by (cases t) simp_all

lemma chain_features_baseline:
  assumes "year target \<noteq> Custom"
  shows "isFeatureBaseline bl target ''optional-chaining''
     \<and> isFeatureBaseline bl target ''nullish-coalescing''"
  using assms chain_lookup since_2022 [of "year target"]
  by (cases "year target") (simp_all add: isFeatureBaseline_def lookupFeature_def Let_def)

lemma chain_occurrences:
  "map (\<lambda>r. (feature r, line r, column r, severity r))
     (parseJavaScript (babelParse chain_env) (doc_content chain_doc) (doc_filename chain_doc))
   = [(''nullish-coalescing'', 1, 10, Warning), (''optional-chaining'', 1, 10, Warning)]"
  by code_simp

lemma chain_output: "checkCompatibility chain_env (Documents [chain_doc]) None None = Inr []"
  by code_simp

lemma chain_default_config:
  "\<not> isl (loadConfig chain_env Map.empty None None)
   \<and> baseline_target (fst (projr (loadConfig chain_env Map.empty None None))) = Y2024
   \<and> severity_default (fst (projr (loadConfig chain_env Map.empty None None))) = Warning"
  by code_simp

subsection \<open>Suppressed lines\<close>

lemma ignoreLoop_js_mono: "x \<in> S \<Longrightarrow> x \<in> ignoreLoop_js ls n S"
  by (induction ls arbitrary: n S) (simp_all add: markLine_def)

lemma ignoreLoop_js_marks:
  assumes "i < length ls"
      and "includesStr (ls ! i) ''// baseline-buddy-ignore''
           \<or> includesStr (ls ! i) ''/* baseline-buddy-ignore */''"
  shows "n + int i \<in> ignoreLoop_js ls n S"
  using assms
proof (induction ls arbitrary: i n S)
  case Nil
  then show ?case by simp
next
  case (Cons l ls)
  show ?case
  proof (cases i)
    case 0
    with Cons.prems(2) have "n \<in> markLine ''/* baseline-buddy-ignore */'' l n (ls \<noteq> [])
          (markLine ''// baseline-buddy-ignore'' l n (ls \<noteq> []) S)"
      by (auto simp: markLine_def)
    then show ?thesis using 0 by (simp add: ignoreLoop_js_mono)
  next
    case (Suc j)
    with Cons.prems have "j < length ls"
      and "includesStr (ls ! j) ''// baseline-buddy-ignore''
           \<or> includesStr (ls ! j) ''/* baseline-buddy-ignore */''"
      by simp_all
    from Cons.IH [OF this, of "n + 1"] show ?thesis using Suc by (simp add: add.assoc)
  qed
qed

lemma marker_covers_following_line:
  assumes "i < length (split content (CHR 0x0A))"
      and "includesStr (split content (CHR 0x0A) ! i) ''// baseline-buddy-ignore''
           \<or> includesStr (split content (CHR 0x0A) ! i) ''/* baseline-buddy-ignore */''"
  shows "isLineIgnored (int i + 1) (parseIgnoreComments_js content)
     \<and> isLineIgnored (int i + 2) (parseIgnoreComments_js content)"
  using ignoreLoop_js_marks [OF assms, of 1 "{}"]
  by (simp add: isLineIgnored_def parseIgnoreComments_js_def add.commute)

lemma marker_sets:
  "parseIgnoreComments_js inline_marker_text = {1}
   \<and> parseIgnoreComments_js own_line_marker_text = {1, 2}
   \<and> parseIgnoreComments_css inline_marker_css = {1}"
  by (auto simp: parseIgnoreComments_js_def parseIgnoreComments_css_def markLine_def trim_def
        isWhiteSpace_def inline_marker_text_def own_line_marker_text_def inline_marker_css_def)

lemma marker_results:
  "map (\<lambda>r. (feature r, line r))
     (parseJavaScript (\<lambda>c. Some (program [statement 1 ''a'' ''b'', statement 2 ''c'' ''d'']))
        ''a?.b;\<newline>c?.d;'' ''app.js'')
     = [(''optional-chaining'', 1), (''optional-chaining'', 2)]
   \<and> parseJavaScript (\<lambda>c. Some (program [statement 1 ''a'' ''b'', statement 2 ''c'' ''d'']))
        inline_marker_text ''app.js'' = []
   \<and> map (\<lambda>r. (feature r, line r))
        (parseJavaScript
           (\<lambda>c. Some (program [statement 2 ''a'' ''b'', statement 3 ''c'' ''d'', statement 4 ''e'' ''f'']))
           own_line_marker_text ''app.js'')
       = [(''optional-chaining'', 4)]
   \<and> parseCSS (\<lambda>c f. Some [CssRule (Some (1, 1)) ''.a:has(.b)'' [],
                             CssComment (Some (1, 15)),
                             CssRule (Some (2, 1)) ''.c:has(.d)'' []])
        inline_marker_css ''app.css'' = []"
  by code_simp

subsection \<open>The loop over file paths\<close>

lemma checkPaths_filePathsOf:
  "checkPaths env config files = checkFiles env config (filePathsOf env config files) []"
  by (simp add: checkPaths_def filePathsOf_def Let_def)

lemma files_contribute:
  assumes "path \<in> set (filePathsOf env config paths)"
      and "readFileSync env path = Some content"
      and "d \<in> set (processResults env config (fileResultsOf env path content))"
  shows "d \<in> set (checkCompatibilityWithConfig env (FilePaths paths) config)"
proof -
  have "d \<in> set (checkFile env config path)"
    using assms(2,3) by (simp add: checkFile_def)
  with assms(1) show ?thesis
    by (auto simp: checkCompatibilityWithConfig_def checkPaths_filePathsOf checkFiles_acc)
qed

lemma file_survivor:
  assumes "path \<in> set (filePathsOf env config paths)"
      and "readFileSync env path = Some content"
      and "r \<in> set (fileResultsOf env path content)"
      and "\<not> shouldIgnoreFeature (feature r) config"
      and "\<not> isFeatureBaseline (browserslist env) (targetOfConfig config) (feature r)"
  shows "finalOf config r \<in> set (checkCompatibilityWithConfig env (FilePaths paths) config)"
proof -
  have "finalOf config r \<in> set (processResults env config (fileResultsOf env path content))"
    using assms(3-5) by (auto simp: processResults_set)
  with assms(1,2) show ?thesis by (rule files_contribute)
qed

lemma fileInvalid_checkFile:
  assumes "fileInvalid env path"
  shows "checkFile env config path = []"
  using assms
  by (auto simp: fileInvalid_def checkFile_def fileResultsOf_def Let_def parseJavaScript_def
        parseCSS_def processResults_Nil split: option.splits if_splits)

lemma example_paths_kept: "filePathsOf file_env default_config example_paths = example_paths"
  by code_simp

lemma file_env_reads:
  "readFileSync file_env ''src/base.css'' = Some ''@layer base;''
   \<and> readFileSync file_env ''src/share.js'' = Some ''navigator.share(data);''"
  by code_simp

lemma layer_file_results:
  "fileResultsOf file_env ''src/base.css'' ''@layer base;'' = [layer_file_occurrence]"
  by code_simp

lemma share_file_results:
  "fileResultsOf file_env ''src/share.js'' ''navigator.share(data);'' ! 1 = share_file_occurrence
   \<and> length (fileResultsOf file_env ''src/share.js'' ''navigator.share(data);'') = 2"
  by code_simp

lemma example_paths_output:
  "map (\<lambda>d. (file_name d, feature d, severity d, baseline d))
     (checkCompatibilityWithConfig file_env (FilePaths example_paths) default_config)
   = [(''src/share.js'', ''web-share'', Warning, ''limited''),
      (''src/share.js'', ''web-share-api'', Warning, ''limited''),
      (''src/base.css'', ''css-cascade-layers'', Warning, ''limited'')]"
  by code_simp

lemma invalid_file_invalid: "fileInvalid file_env ''src/invalid.js''"
  by code_simp

lemma example_rest:
  "length (checkFiles file_env default_config [''src/share.js''] []) = 2
   \<and> length (checkFiles file_env default_config [''src/base.css''] []) = 1"
  by code_simp

subsection \<open>Widely supported features are never reported\<close>

text \<open>
  Claim C1. For every feature whose catalog entry (the entry of \<open>baselineFeatures\<close>, or
  else the \<open>baseline\<close> part of the entry of \<open>webFeaturesData\<close>) has status \<open>widely\<close>:
  \<open>isFeatureBaseline\<close> is true for every target and every resolver, \<open>filterResults\<close>
  keeps no occurrence of the feature, and no diagnostic of the feature is in the list the
  aggregator returns, whatever the environment, the input units and the configuration.
\<close>

theorem widely_never_reported:
  assumes "lookupFeature featureId = Some f" and "status f = Widely"
  shows "isFeatureBaseline bl target featureId
     \<and> featureId \<notin> feature ` set (filterResults bl target results)
     \<and> featureId \<notin> feature ` set (checkCompatibilityWithConfig env files config)"
proof -
  have base: "\<And>b t. isFeatureBaseline b t featureId"
    using assms by (rule widely_isFeatureBaseline)
  have "featureId \<notin> feature ` set (filterResults bl target results)"
    using base by (auto simp: filterResults_def)
  moreover have "featureId \<notin> feature ` set (checkCompatibilityWithConfig env files config)"
    using base aggregator_final by blast
  ultimately show ?thesis using base by simp
qed

theorem widely_never_reported_witness:
  "lookupFeature ''fetch'' = Some \<lparr> status = Widely, since = Some ''2017-03'' \<rparr>
   \<and> isFeatureBaseline (\<lambda>query. Some []) \<lparr> year = Custom, customBrowserslist = Some [''ie 6''] \<rparr> ''fetch''
   \<and> ''fetch'' \<notin> feature ` set (filterResults (\<lambda>query. Some [])
                     \<lparr> year = Custom, customBrowserslist = Some [''ie 6''] \<rparr>
                     [occurrence ''fetch'', occurrence ''private-class-fields''])"
  using widely_never_reported [OF lookup_fetch, of "\<lambda>query. Some []"
      "\<lparr> year = Custom, customBrowserslist = Some [''ie 6''] \<rparr>"
      "[occurrence ''fetch'', occurrence ''private-class-fields'']"]
  by (simp add: lookup_fetch)

subsection \<open>Coverage under a custom target\<close>

text \<open>
  Claim C2. Let the catalog record per-engine minimum versions for a feature (it has an
  entry in \<open>webFeaturesData\<close>), and let the custom query resolve to the list \<open>browsers\<close>.
  The loop counts an entry exactly when its pair is supported in the sense of the
  specification (\<open>pairSupported\<close>: a minimum is recorded for the engine and is at most the
  version; no recorded minimum means unsupported). The feature is baseline under the custom
  target exactly when the list is not empty and the number of supported pairs divided by the
  number of pairs is at least 0.95. In particular 19 supported pairs of 20 make the feature
  baseline and 18 of 20 do not.
\<close>

theorem custom_target_coverage:
  assumes "map_of webFeaturesData featureId = Some webFeature"
      and "bl query = Some browsers"
  shows "(browserSupported webFeature browser \<longleftrightarrow> pairSupported webFeature (pairOf browser))
     \<and> (isFeatureBaseline bl \<lparr> year = Custom, customBrowserslist = Some query \<rparr> featureId
          \<longleftrightarrow> browsers \<noteq> []
              \<and> 95 / 100 \<le> rat_of_nat (length (filter (pairSupported webFeature) (map pairOf browsers)))
                              / rat_of_nat (length browsers))
     \<and> (length browsers = 20
          \<and> length (filter (pairSupported webFeature) (map pairOf browsers)) = 19
          \<longrightarrow> isFeatureBaseline bl \<lparr> year = Custom, customBrowserslist = Some query \<rparr> featureId)
     \<and> (length browsers = 20
          \<and> length (filter (pairSupported webFeature) (map pairOf browsers)) = 18
          \<longrightarrow> \<not> isFeatureBaseline bl \<lparr> year = Custom, customBrowserslist = Some query \<rparr> featureId)"
proof -
  let ?base = "isFeatureBaseline bl \<lparr> year = Custom, customBrowserslist = Some query \<rparr> featureId"
  let ?s = "length (filter (pairSupported webFeature) (map pairOf browsers))"
  from webFeature_not_widely [OF assms(1)] obtain f
    where f: "lookupFeature featureId = Some f" "status f \<noteq> Widely" by blast
  have base: "?base \<longleftrightarrow> browsers \<noteq> [] \<and> 19 * length browsers \<le> 20 * ?s"
    using custom_is_coverage [OF f] coverage_eq [of featureId webFeature bl query browsers] assms
    by simp
  have ratio: "?base \<longleftrightarrow> browsers \<noteq> [] \<and> 95 / 100 \<le> rat_of_nat ?s / rat_of_nat (length browsers)"
  proof (cases "browsers = []")
    case True
    then show ?thesis using base by simp
  next
    case False
    then have "length browsers \<noteq> 0" by simp
    from ratio_threshold [OF this, of ?s] show ?thesis using base False by simp
  qed
  have n19: "length browsers = 20 \<and> ?s = 19 \<longrightarrow> ?base"
    using base by auto
  have n18: "length browsers = 20 \<and> ?s = 18 \<longrightarrow> \<not> ?base"
    using base by auto
  show ?thesis using browserSupported_pair ratio n19 n18 by blast
qed

theorem custom_target_coverage_witness:
  "map_of webFeaturesData ''array-at'' = Some array_at
   \<and> length browsers19 = 20 \<and> length browsers18 = 20
   \<and> length (filter (pairSupported array_at) (map pairOf browsers19)) = 19
   \<and> length (filter (pairSupported array_at) (map pairOf browsers18)) = 18
   \<and> isFeatureBaseline (\<lambda>q. Some browsers19)
        \<lparr> year = Custom, customBrowserslist = Some [''defaults''] \<rparr> ''array-at''
   \<and> \<not> isFeatureBaseline (\<lambda>q. Some browsers18)
        \<lparr> year = Custom, customBrowserslist = Some [''defaults''] \<rparr> ''array-at''
   \<and> \<not> browserSupported array_at ''edge 108'' \<and> browserSupported array_at ''ios_saf 16.1''"
proof -
  have l19: "length browsers19 = 20" and l18: "length browsers18 = 20"
    by (simp_all add: browsers19_def browsers18_def)
  have e: "\<not> browserSupported array_at ''edge 108''" and i: "browserSupported array_at ''ios_saf 16.1''"
    by code_simp+
  from custom_target_coverage [OF array_at_entry, of "\<lambda>q. Some browsers19" "[''defaults'']" browsers19 "''edge 108''"]
  have a: "isFeatureBaseline (\<lambda>q. Some browsers19)
        \<lparr> year = Custom, customBrowserslist = Some [''defaults''] \<rparr> ''array-at''"
    using l19 count19 by blast
  from custom_target_coverage [OF array_at_entry, of "\<lambda>q. Some browsers18" "[''defaults'']" browsers18 "''edge 108''"]
  have b: "\<not> isFeatureBaseline (\<lambda>q. Some browsers18)
        \<lparr> year = Custom, customBrowserslist = Some [''defaults''] \<rparr> ''array-at''"
    using l18 count18 by blast
  show ?thesis using array_at_entry l19 l18 count19 count18 a b e i by simp
qed

subsection \<open>An empty resolved list\<close>

text \<open>
  Claim C10. When the query resolves to the empty list, the coverage computation returns
  false for every feature id: the quotient of the two counters is \<open>0 / 0 = NaN\<close>, and the
  comparison of \<open>NaN\<close> with 0.95 is false. Under a custom target with such a query
  \<open>isFeatureBaseline\<close> is therefore false for every feature that reaches the coverage
  computation, that is, for every feature whose status is not \<open>widely\<close> (for which the
  answer is given before the target is looked at).
\<close>

theorem empty_resolution_not_baseline:
  assumes "bl query = Some []"
  shows "\<not> calculateBrowserslistCoverage bl featureId query
     \<and> js_div_count (countSupported webFeature [] 0) (length ([] :: string list)) = NaN
     \<and> (isFeatureBaseline bl \<lparr> year = Custom, customBrowserslist = Some query \<rparr> featureId
          \<longleftrightarrow> (\<exists>f. lookupFeature featureId = Some f \<and> status f = Widely))"
proof -
  have cov: "\<not> calculateBrowserslistCoverage bl featureId query"
    using assms
    by (simp add: calculateBrowserslistCoverage_def js_div_count_def js_ge_def split: option.splits)
  have nan: "js_div_count (countSupported webFeature [] 0) (length ([] :: string list)) = NaN"
    by (simp add: js_div_count_def)
  have "isFeatureBaseline bl \<lparr> year = Custom, customBrowserslist = Some query \<rparr> featureId
          \<longleftrightarrow> (\<exists>f. lookupFeature featureId = Some f \<and> status f = Widely)"
  proof (cases "lookupFeature featureId")
    case None
    then show ?thesis by (simp add: isFeatureBaseline_def Let_def)
  next
    case (Some f)
    show ?thesis
    proof (cases "status f = Widely")
      case True
      with Some show ?thesis using widely_isFeatureBaseline by simp
    next
      case False
      with Some cov show ?thesis using custom_is_coverage [OF Some False] by simp
    qed
  qed
  with cov nan show ?thesis by simp
qed

theorem empty_resolution_not_baseline_witness:
  "(\<lambda>q. Some []) [''chrome 999''] = Some ([] :: string list)
   \<and> \<not> calculateBrowserslistCoverage (\<lambda>q. Some []) ''array-at'' [''chrome 999'']
   \<and> \<not> isFeatureBaseline (\<lambda>q. Some [])
         \<lparr> year = Custom, customBrowserslist = Some [''chrome 999''] \<rparr> ''array-at''"
proof -
  have "lookupFeature ''array-at'' = Some \<lparr> status = Newly, since = Some ''2022-03'' \<rparr>"
    by code_simp
  then show ?thesis
    using empty_resolution_not_baseline [of "\<lambda>q. Some []" "[''chrome 999'']" "''array-at''"]
    by simp
qed

subsection \<open>Default severity of reported features\<close>

text \<open>
  Claim C5, as stated, fails: the stylesheet \<open>@layer base;\<close> under the built-in defaults
  yields one diagnostic of the feature \<open>css-cascade-layers\<close>, whose catalog status is
  \<open>limited\<close> and which is not baseline, and its severity is \<open>warning\<close>, not \<open>error\<close>.
\<close>

theorem limited_severity_counterexample:
  "lookupFeature ''css-cascade-layers'' = Some \<lparr> status = Limited, since = None \<rparr>
   \<and> \<not> isFeatureBaseline (browserslist layer_env) (targetOfConfig default_config) ''css-cascade-layers''
   \<and> ruleSeverityOf default_config ''css-cascade-layers'' = None
   \<and> featureSeverityOf default_config ''css-cascade-layers'' = None
   \<and> map (\<lambda>d. (feature d, severity d))
        (checkCompatibilityWithConfig layer_env (Documents [layer_doc]) default_config)
       = [(''css-cascade-layers'', Warning)]
   \<and> Warning \<noteq> Error"
  using layer_lookup layer_output layer_not_baseline default_config_no_override
  by (simp add: targetOfConfig_def)

text \<open>
  Claim C5, amended. For every occurrence of a cataloged feature (status \<open>limited\<close> or
  \<open>newly\<close>) that is judged not baseline, when the configuration has no per-feature
  override for it (no severity in \<open>rules\<close>, no entry in \<open>severity.features\<close>), the
  diagnostic is in the final list and carries the default severity of the configuration,
  which is \<open>warning\<close> under the built-in defaults. This holds for an occurrence of a
  document of an in-memory batch and for an occurrence of a file the loop over file paths
  reads. The evaluator's own default (\<open>getSeverityForFeature\<close>: \<open>error\<close> for
  \<open>limited\<close>, \<open>warning\<close> for \<open>newly\<close>) is what that function returns, but the
  aggregator does not apply it: for every input, every diagnostic of the final list whose
  feature has no override carries the default severity of the configuration.
\<close>

theorem no_override_default_severity:
  assumes "lookupFeature (feature r) = Some f"
      and "\<not> isFeatureBaseline (browserslist env) (targetOfConfig config) (feature r)"
      and "ruleSeverityOf config (feature r) = None"
      and "featureSeverityOf config (feature r) = None"
  shows "(doc \<in> set documents \<and> r \<in> set (documentResults env doc) \<longrightarrow>
            finalOf config r \<in> set (checkCompatibilityWithConfig env (Documents documents) config))
     \<and> (path \<in> set (filePathsOf env config paths) \<and> readFileSync env path = Some content
          \<and> r \<in> set (fileResultsOf env path content) \<longrightarrow>
            finalOf config r \<in> set (checkCompatibilityWithConfig env (FilePaths paths) config))
     \<and> severity (finalOf config r) = severity_default config
     \<and> getSeverityForFeature (feature r)
         = (case status f of Limited \<Rightarrow> Error | Newly \<Rightarrow> Warning | Widely \<Rightarrow> Info)
     \<and> (d \<in> set (checkCompatibilityWithConfig env files config)
          \<and> ruleSeverityOf config (feature d) = None
          \<and> featureSeverityOf config (feature d) = None \<longrightarrow>
            severity d = severity_default config)"
proof -
  have ni: "\<not> shouldIgnoreFeature (feature r) config"
    using assms(3,4) by (simp add: shouldIgnoreFeature_iff)
  have docs: "doc \<in> set documents \<and> r \<in> set (documentResults env doc) \<longrightarrow>
            finalOf config r \<in> set (checkCompatibilityWithConfig env (Documents documents) config)"
    using survivor_in_output [of doc documents r env config] ni assms(2) by blast
  have fls: "path \<in> set (filePathsOf env config paths) \<and> readFileSync env path = Some content
          \<and> r \<in> set (fileResultsOf env path content) \<longrightarrow>
            finalOf config r \<in> set (checkCompatibilityWithConfig env (FilePaths paths) config)"
    using file_survivor [of path env config paths content r] ni assms(2) by blast
  have sev: "severity (finalOf config r) = severity_default config"
    using assms(3,4) by (simp add: getFeatureSeverity_default)
  have ev: "getSeverityForFeature (feature r)
         = (case status f of Limited \<Rightarrow> Error | Newly \<Rightarrow> Warning | Widely \<Rightarrow> Info)"
    using assms(1) by (simp add: getSeverityForFeature_def)
  have every: "d \<in> set (checkCompatibilityWithConfig env files config)
          \<and> ruleSeverityOf config (feature d) = None
          \<and> featureSeverityOf config (feature d) = None \<longrightarrow>
            severity d = severity_default config"
    using aggregator_final [of d env files config] by (auto simp: getFeatureSeverity_default)
  from docs fls sev ev every show ?thesis by blast
qed

theorem no_override_default_severity_witness:
  "layer_doc \<in> set [layer_doc]
   \<and> layer_occurrence \<in> set (documentResults layer_env layer_doc)
   \<and> lookupFeature (feature layer_occurrence) = Some \<lparr> status = Limited, since = None \<rparr>
   \<and> finalOf default_config layer_occurrence
        \<in> set (checkCompatibilityWithConfig layer_env (Documents [layer_doc]) default_config)
   \<and> severity (finalOf default_config layer_occurrence) = Warning
   \<and> getSeverityForFeature (feature layer_occurrence) = Error
   \<and> ''src/base.css'' \<in> set (filePathsOf file_env default_config example_paths)
   \<and> readFileSync file_env ''src/base.css'' = Some ''@layer base;''
   \<and> layer_file_occurrence \<in> set (fileResultsOf file_env ''src/base.css'' ''@layer base;'')
   \<and> finalOf default_config layer_file_occurrence
        \<in> set (checkCompatibilityWithConfig file_env (FilePaths example_paths) default_config)
   \<and> ruleSeverityOf default_config (feature (finalOf default_config layer_file_occurrence)) = None
   \<and> featureSeverityOf default_config (feature (finalOf default_config layer_file_occurrence)) = None
   \<and> severity (finalOf default_config layer_file_occurrence) = Warning"
proof -
  have f: "feature layer_occurrence = ''css-cascade-layers''"
    and ff: "feature layer_file_occurrence = ''css-cascade-layers''"
    by (simp_all add: layer_occurrence_def layer_file_occurrence_def)
  have nb: "\<not> isFeatureBaseline (browserslist layer_env) (targetOfConfig default_config)
              (feature layer_occurrence)"
    using layer_not_baseline default_config_no_override by (simp add: targetOfConfig_def f)
  have nbf: "\<not> isFeatureBaseline (browserslist file_env) (targetOfConfig default_config)
              (feature layer_file_occurrence)"
    using layer_not_baseline default_config_no_override by (simp add: targetOfConfig_def ff)
  have l: "lookupFeature (feature layer_occurrence) = Some \<lparr> status = Limited, since = None \<rparr>"
    and lf: "lookupFeature (feature layer_file_occurrence) = Some \<lparr> status = Limited, since = None \<rparr>"
    using layer_lookup f ff by simp_all
  have r1: "ruleSeverityOf default_config (feature layer_occurrence) = None"
    and r2: "featureSeverityOf default_config (feature layer_occurrence) = None"
    and r3: "ruleSeverityOf default_config (feature layer_file_occurrence) = None"
    and r4: "featureSeverityOf default_config (feature layer_file_occurrence) = None"
    using default_config_no_override by simp_all
  have m: "layer_occurrence \<in> set (documentResults layer_env layer_doc)"
    by (simp add: layer_results)
  have d: "layer_doc \<in> set [layer_doc]" by simp
  have p: "''src/base.css'' \<in> set (filePathsOf file_env default_config example_paths)"
    using example_paths_kept by (simp add: example_paths_def)
  have rd: "readFileSync file_env ''src/base.css'' = Some ''@layer base;''"
    using file_env_reads by simp
  have mf: "layer_file_occurrence \<in> set (fileResultsOf file_env ''src/base.css'' ''@layer base;'')"
    by (simp add: layer_file_results)
  from no_override_default_severity [OF l nb r1 r2, of layer_doc "[layer_doc]"]
  have a: "finalOf default_config layer_occurrence
        \<in> set (checkCompatibilityWithConfig layer_env (Documents [layer_doc]) default_config)"
    and b: "severity (finalOf default_config layer_occurrence) = severity_default default_config"
    and c: "getSeverityForFeature (feature layer_occurrence) = Error"
    using d m by simp_all
  from no_override_default_severity [OF lf nbf r3 r4,
      where path = "''src/base.css''" and paths = example_paths and content = "''@layer base;''"
        and d = "finalOf default_config layer_file_occurrence" and files = "FilePaths example_paths"]
  have e: "finalOf default_config layer_file_occurrence
        \<in> set (checkCompatibilityWithConfig file_env (FilePaths example_paths) default_config)"
    and g: "severity (finalOf default_config layer_file_occurrence) = severity_default default_config"
    using p rd mf by simp_all
  from d m l a b c p rd mf e g default_config_no_override show ?thesis by simp
qed

subsection \<open>Features unknown to the catalog\<close>

text \<open>
  Claim C6, as stated, fails: for the script \<open>navigator.share(data);\<close> under the built-in
  defaults the final list holds a diagnostic of \<open>web-share-api\<close>, an id that is in
  neither table of the catalog, and its \<open>baseline\<close> field is \<open>limited\<close>, not
  \<open>unknown\<close>.
\<close>

theorem unknown_baseline_field_counterexample:
  "map_of baselineFeatures ''web-share-api'' = None
   \<and> map_of webFeaturesData ''web-share-api'' = None
   \<and> map (\<lambda>d. (feature d, severity d, baseline d))
        (checkCompatibilityWithConfig share_env (Documents [share_doc]) default_config)
       = [(''web-share'', Warning, ''limited''), (''web-share-api'', Warning, ''limited'')]
   \<and> ''limited'' \<noteq> ''unknown''"
  using share_unknown share_output by simp

text \<open>
  Claim C6, amended. An id absent from both tables is not baseline under any target, and
  under the built-in defaults every occurrence of such an id that a matcher returned, for a
  document of an in-memory batch or for a file the loop over file paths reads, is in the
  final list, with severity \<open>warning\<close>, the message extended by
  \<open>Unknown baseline status\<close>, and the \<open>baseline\<close> field the matcher gave it,
  unchanged. That field is \<open>unknown\<close> when the matcher called \<open>createResult\<close> without a
  descriptor, and \<open>limited\<close> when it passed the literal descriptor of the hard-coded API
  patterns.
\<close>

theorem unknown_feature_reported:
  assumes "map_of baselineFeatures (feature r) = None"
      and "map_of webFeaturesData (feature r) = None"
  shows "\<not> isFeatureBaseline bl target (feature r)
     \<and> (doc \<in> set documents \<and> r \<in> set (documentResults env doc) \<longrightarrow>
          finalOf default_config r
            \<in> set (checkCompatibilityWithConfig env (Documents documents) default_config))
     \<and> (path \<in> set (filePathsOf env default_config paths) \<and> readFileSync env path = Some content
          \<and> r \<in> set (fileResultsOf env path content) \<longrightarrow>
          finalOf default_config r
            \<in> set (checkCompatibilityWithConfig env (FilePaths paths) default_config))
     \<and> severity (finalOf default_config r) = Warning
     \<and> baseline (finalOf default_config r) = baseline r
     \<and> message (finalOf default_config r) = message r @ '' - Unknown baseline status''
     \<and> baseline (createResult name lineNo col feat msg sev None) = ''unknown''
     \<and> baseline (createResult name lineNo col feat msg sev (Some limitedLiteral)) = ''limited''"
proof -
  have nb: "\<And>b t. \<not> isFeatureBaseline b t (feature r)"
    using assms by (rule unknown_not_baseline)
  have ni: "\<not> shouldIgnoreFeature (feature r) default_config"
    using default_config_no_override by (simp add: shouldIgnoreFeature_iff)
  have docs: "doc \<in> set documents \<and> r \<in> set (documentResults env doc) \<longrightarrow>
          finalOf default_config r
            \<in> set (checkCompatibilityWithConfig env (Documents documents) default_config)"
    using survivor_in_output [of doc documents r env default_config] ni nb by blast
  have fls: "path \<in> set (filePathsOf env default_config paths) \<and> readFileSync env path = Some content
          \<and> r \<in> set (fileResultsOf env path content) \<longrightarrow>
          finalOf default_config r
            \<in> set (checkCompatibilityWithConfig env (FilePaths paths) default_config)"
    using file_survivor [of path env default_config paths content r] ni nb by blast
  have sev: "severity (finalOf default_config r) = Warning"
    using default_config_no_override by (simp add: getFeatureSeverity_default)
  have msg: "message (finalOf default_config r) = message r @ '' - Unknown baseline status''"
    using unknown_message [OF assms] by (simp add: finalOf_def)
  have c1: "baseline (createResult name lineNo col feat msg sev None) = ''unknown''"
    by (simp add: createResult_def)
  have c2: "baseline (createResult name lineNo col feat msg sev (Some limitedLiteral)) = ''limited''"
    by (simp add: createResult_def limitedLiteral_def)
  from nb docs fls sev msg c1 c2 show ?thesis by simp
qed

theorem unknown_feature_reported_witness:
  "share_doc \<in> set [share_doc]
   \<and> share_occurrence \<in> set (documentResults share_env share_doc)
   \<and> map_of baselineFeatures (feature share_occurrence) = None
   \<and> map_of webFeaturesData (feature share_occurrence) = None
   \<and> finalOf default_config share_occurrence
        \<in> set (checkCompatibilityWithConfig share_env (Documents [share_doc]) default_config)
   \<and> severity (finalOf default_config share_occurrence) = Warning
   \<and> baseline (finalOf default_config share_occurrence) = ''limited''
   \<and> ''src/share.js'' \<in> set (filePathsOf file_env default_config example_paths)
   \<and> readFileSync file_env ''src/share.js'' = Some ''navigator.share(data);''
   \<and> share_file_occurrence
        \<in> set (fileResultsOf file_env ''src/share.js'' ''navigator.share(data);'')
   \<and> map_of baselineFeatures (feature share_file_occurrence) = None
   \<and> map_of webFeaturesData (feature share_file_occurrence) = None
   \<and> finalOf default_config share_file_occurrence
        \<in> set (checkCompatibilityWithConfig file_env (FilePaths example_paths) default_config)"
proof -
  have f: "feature share_occurrence = ''web-share-api''"
    and b: "baseline share_occurrence = ''limited''"
    and ff: "feature share_file_occurrence = ''web-share-api''"
    by (simp_all add: share_occurrence_def share_file_occurrence_def)
  have m: "share_occurrence \<in> set (documentResults share_env share_doc)"
    using share_results share_length by (metis nth_mem one_less_numeral_iff semiring_norm(76))
  have d: "share_doc \<in> set [share_doc]" by simp
  have u1: "map_of baselineFeatures (feature share_occurrence) = None"
    and u2: "map_of webFeaturesData (feature share_occurrence) = None"
    and u3: "map_of baselineFeatures (feature share_file_occurrence) = None"
    and u4: "map_of webFeaturesData (feature share_file_occurrence) = None"
    using share_unknown f ff by simp_all
  have p: "''src/share.js'' \<in> set (filePathsOf file_env default_config example_paths)"
    using example_paths_kept by (simp add: example_paths_def)
  have rd: "readFileSync file_env ''src/share.js'' = Some ''navigator.share(data);''"
    using file_env_reads by simp
  have mf: "share_file_occurrence
        \<in> set (fileResultsOf file_env ''src/share.js'' ''navigator.share(data);'')"
    using share_file_results by (metis nth_mem one_less_numeral_iff semiring_norm(76))
  from unknown_feature_reported [OF u1 u2, of _ _ share_doc "[share_doc]" share_env]
  have a: "finalOf default_config share_occurrence
        \<in> set (checkCompatibilityWithConfig share_env (Documents [share_doc]) default_config)"
    and s: "severity (finalOf default_config share_occurrence) = Warning"
    and bb: "baseline (finalOf default_config share_occurrence) = baseline share_occurrence"
    using d m by simp_all
  from unknown_feature_reported [OF u3 u4, where env = file_env and path = "''src/share.js''"
      and paths = example_paths and content = "''navigator.share(data);''"]
  have e: "finalOf default_config share_file_occurrence
        \<in> set (checkCompatibilityWithConfig file_env (FilePaths example_paths) default_config)"
    using p rd mf by simp
  from d m u1 u2 a s bb b p rd mf u3 u4 e show ?thesis by simp
qed

subsection \<open>Precedence of the severity overrides\<close>

text \<open>
  Claim C7. For every diagnostic of the final list: a severity in the \<open>rules\<close> entry of
  its feature is its severity, whatever \<open>severity.features\<close> says; without one, a
  severity in \<open>severity.features\<close> is its severity; without either, the default severity
  is. No diagnostic of the final list has \<open>ignore\<close> at either level: such an occurrence is
  removed by \<open>applyConfiguration\<close>, before and independently of the baseline filter.
\<close>

theorem severity_precedence:
  assumes "d \<in> set (checkCompatibilityWithConfig env files config)"
  shows "(ruleSeverityOf config (feature d) = Some (Level s) \<longrightarrow> severity d = s)
     \<and> (ruleSeverityOf config (feature d) = None
          \<and> featureSeverityOf config (feature d) = Some (Level s) \<longrightarrow> severity d = s)
     \<and> (ruleSeverityOf config (feature d) = None
          \<and> featureSeverityOf config (feature d) = None \<longrightarrow> severity d = severity_default config)
     \<and> ruleSeverityOf config (feature d) \<noteq> Some Ignore
     \<and> featureSeverityOf config (feature d) \<noteq> Some Ignore"
proof -
  from aggregator_final [OF assms]
  have ign: "\<not> shouldIgnoreFeature (feature d) config"
    and sev: "severity d = getFeatureSeverity (feature d) config"
    by simp_all
  show ?thesis
    using ign sev getFeatureSeverity_rule getFeatureSeverity_feature getFeatureSeverity_default
    by (auto simp: shouldIgnoreFeature_iff)
qed

theorem severity_precedence_witness:
  "has_diagnostic \<in> set (checkCompatibilityWithConfig has_env (Documents [has_doc]) has_config)
   \<and> ruleSeverityOf has_config (feature has_diagnostic) = Some (Level Error)
   \<and> featureSeverityOf has_config (feature has_diagnostic) = Some (Level Info)
   \<and> severity has_diagnostic = Error"
proof -
  have mem: "has_diagnostic \<in> set (checkCompatibilityWithConfig has_env (Documents [has_doc]) has_config)"
    by (simp add: has_output)
  have f: "feature has_diagnostic = ''css-has-selector''"
    by (simp add: has_diagnostic_def)
  from severity_precedence [OF mem, of Error] have "severity has_diagnostic = Error"
    using has_rule f by simp
  with mem has_rule has_feature f show ?thesis by simp
qed

subsection \<open>Parse failures are soft\<close>

text \<open>
  Claim C9. When the script parser throws on a text, \<open>parseJavaScript\<close> returns the empty
  list; when the stylesheet parser throws, \<open>parseCSS\<close> returns the empty list. A
  document of a batch on which the selected parser throws contributes nothing, and the
  aggregator returns the diagnostics of the documents before it followed by those of the
  documents after it. Likewise a file of the list of paths on which the parser selected by
  its extension throws contributes nothing, and the aggregator returns the diagnostics of
  the files before it followed by those of the files after it.
\<close>

theorem parse_failure_is_soft:
  "(babelParse env content = None \<longrightarrow> parseJavaScript (babelParse env) content path = [])
   \<and> (postcssParse env content path = None \<longrightarrow> parseCSS (postcssParse env) content path = [])
   \<and> (documentInvalid env bad \<longrightarrow>
        documentResults env bad = []
        \<and> checkCompatibilityWithConfig env (Documents (before @ bad # after)) config
            = checkDocuments env config before [] @ checkDocuments env config after [])
   \<and> (fileInvalid env badPath \<and> filePathsOf env config paths = firstPaths @ badPath # morePaths
        \<longrightarrow>
        checkFile env config badPath = []
        \<and> checkCompatibilityWithConfig env (FilePaths paths) config
            = checkFiles env config firstPaths [] @ checkFiles env config morePaths [])"
proof -
  have js: "babelParse env content = None \<longrightarrow> parseJavaScript (babelParse env) content path = []"
    by (simp add: parseJavaScript_def)
  have css: "postcssParse env content path = None \<longrightarrow> parseCSS (postcssParse env) content path = []"
    by (simp add: parseCSS_def)
  have docs: "documentInvalid env bad \<longrightarrow>
        documentResults env bad = []
        \<and> checkCompatibilityWithConfig env (Documents (before @ bad # after)) config
            = checkDocuments env config before [] @ checkDocuments env config after []"
  proof
    assume inv: "documentInvalid env bad"
    then have r: "documentResults env bad = []" by (rule documentInvalid_results)
    then have "checkDocument env config bad = []"
      by (simp add: checkDocument_def processResults_Nil)
    then have "checkCompatibilityWithConfig env (Documents (before @ bad # after)) config
            = checkDocuments env config before [] @ checkDocuments env config after []"
      by (simp add: checkCompatibilityWithConfig_def checkDocuments_acc)
    with r show "documentResults env bad = []
        \<and> checkCompatibilityWithConfig env (Documents (before @ bad # after)) config
            = checkDocuments env config before [] @ checkDocuments env config after []" by simp
  qed
  have files: "fileInvalid env badPath \<and> filePathsOf env config paths = firstPaths @ badPath # morePaths
        \<longrightarrow>
        checkFile env config badPath = []
        \<and> checkCompatibilityWithConfig env (FilePaths paths) config
            = checkFiles env config firstPaths [] @ checkFiles env config morePaths []"
  proof
    assume a: "fileInvalid env badPath \<and> filePathsOf env config paths = firstPaths @ badPath # morePaths"
    then have e: "checkFile env config badPath = []" by (simp add: fileInvalid_checkFile)
    with a have "checkCompatibilityWithConfig env (FilePaths paths) config
            = checkFiles env config firstPaths [] @ checkFiles env config morePaths []"
      by (simp add: checkCompatibilityWithConfig_def checkPaths_filePathsOf checkFiles_acc)
    with e show "checkFile env config badPath = []
        \<and> checkCompatibilityWithConfig env (FilePaths paths) config
            = checkFiles env config firstPaths [] @ checkFiles env config morePaths []" by simp
  qed
  from js css docs files show ?thesis by blast
qed

theorem parse_failure_is_soft_witness:
  "babelParse mixed_env (doc_content invalid_doc) = None
   \<and> parseJavaScript (babelParse mixed_env) (doc_content invalid_doc) ''invalid.js'' = []
   \<and> postcssParse mixed_env ''.card {'' ''broken.css'' = None
   \<and> parseCSS (postcssParse mixed_env) ''.card {'' ''broken.css'' = []
   \<and> documentInvalid mixed_env invalid_doc
   \<and> checkCompatibilityWithConfig mixed_env (Documents ([share_doc] @ invalid_doc # [share_doc]))
        default_config
       = checkDocuments mixed_env default_config [share_doc] []
         @ checkDocuments mixed_env default_config [share_doc] []
   \<and> length (checkCompatibilityWithConfig mixed_env
               (Documents ([share_doc] @ invalid_doc # [share_doc])) default_config) = 4
   \<and> fileInvalid file_env ''src/invalid.js''
   \<and> filePathsOf file_env default_config example_paths
       = [''src/share.js''] @ ''src/invalid.js'' # [''src/base.css'']
   \<and> checkCompatibilityWithConfig file_env (FilePaths example_paths) default_config
       = checkFiles file_env default_config [''src/share.js''] []
         @ checkFiles file_env default_config [''src/base.css''] []
   \<and> length (checkCompatibilityWithConfig file_env (FilePaths example_paths) default_config) = 3"
proof -
  have p1: "babelParse mixed_env (doc_content invalid_doc) = None" by code_simp
  have p2: "postcssParse mixed_env ''.card {'' ''broken.css'' = None" by code_simp
  have fp: "filePathsOf file_env default_config example_paths
       = [''src/share.js''] @ ''src/invalid.js'' # [''src/base.css'']"
    using example_paths_kept by (simp add: example_paths_def)
  from parse_failure_is_soft [of mixed_env "doc_content invalid_doc" "''invalid.js''" invalid_doc
      "[share_doc]" "[share_doc]" default_config]
  have a: "parseJavaScript (babelParse mixed_env) (doc_content invalid_doc) ''invalid.js'' = []"
    and b: "checkCompatibilityWithConfig mixed_env
              (Documents ([share_doc] @ invalid_doc # [share_doc])) default_config
       = checkDocuments mixed_env default_config [share_doc] []
         @ checkDocuments mixed_env default_config [share_doc] []"
    using p1 invalid_doc_invalid by blast+
  from parse_failure_is_soft [of mixed_env "''.card {''" "''broken.css''"]
  have c: "parseCSS (postcssParse mixed_env) ''.card {'' ''broken.css'' = []"
    using p2 by blast
  from parse_failure_is_soft [where env = file_env and badPath = "''src/invalid.js''"
      and config = default_config and paths = example_paths
      and firstPaths = "[''src/share.js'']" and morePaths = "[''src/base.css'']"]
  have d: "checkCompatibilityWithConfig file_env (FilePaths example_paths) default_config
       = checkFiles file_env default_config [''src/share.js''] []
         @ checkFiles file_env default_config [''src/base.css''] []"
    using invalid_file_invalid fp by blast
  have e: "length (checkCompatibilityWithConfig mixed_env
               (Documents ([share_doc] @ invalid_doc # [share_doc])) default_config) = 4"
    using b mixed_rest by simp
  have g: "length (checkCompatibilityWithConfig file_env (FilePaths example_paths) default_config) = 3"
    using d example_rest by simp
  from p1 p2 a b c d e g fp invalid_doc_invalid invalid_file_invalid show ?thesis by blast
qed

subsection \<open>A custom target without queries\<close>

text \<open>
  Claim C8, as stated, fails: the configuration
  \<open>{"baseline": {"target": "custom"}, "severity": {"default": "warning"}}\<close>, which has
  no query list, passes the schema and \<open>loadConfig\<close> returns it, with the target
  \<open>custom\<close> and no list; with an empty list it is returned as well when the resolver
  accepts the empty list.
\<close>

theorem custom_target_counterexample:
  "validateConfigSchema custom_without_queries
   \<and> subProp custom_without_queries ''baseline'' ''target'' = Some (JString ''custom'')
   \<and> subProp custom_without_queries ''baseline'' ''browserslist'' = None
   \<and> \<not> isl (loadConfig (config_env custom_without_queries) Map.empty None None)
   \<and> baseline_target (fst (projr (loadConfig (config_env custom_without_queries) Map.empty None None)))
       = Custom
   \<and> baseline_browserslist
        (fst (projr (loadConfig (config_env custom_without_queries) Map.empty None None))) = None
   \<and> subProp custom_empty_queries ''baseline'' ''browserslist'' = Some (JArray [])
   \<and> \<not> isl (loadConfig (config_env custom_empty_queries) Map.empty None None)"
proof -
  have "subProp custom_without_queries ''baseline'' ''target'' = Some (JString ''custom'')"
    and "subProp custom_without_queries ''baseline'' ''browserslist'' = None"
    and "subProp custom_empty_queries ''baseline'' ''browserslist'' = Some (JArray [])"
    by code_simp+
  with without_queries_valid without_queries_loaded empty_queries_loaded show ?thesis by blast
qed

text \<open>
  Claim C8, amended. The schema requires of \<open>baseline\<close> only the member \<open>target\<close> and
  puts no lower bound on the length of \<open>browserslist\<close>. A schema-valid user configuration
  with the target \<open>custom\<close> and no query list is accepted by \<open>loadConfig\<close>. One with an
  empty query list is handed to the query resolver and is rejected exactly when the
  resolver throws on the empty list.
\<close>

theorem custom_target_queries_optional:
  assumes "path \<noteq> []" and "\<not> endsWith path ''package.json''" and "configCache path = None"
      and "readFileSync env path = Some configContent"
      and "jsonParse env configContent = Some userConfig"
      and "validateConfigSchema userConfig"
      and "subProp userConfig ''baseline'' ''target'' = Some (JString ''custom'')"
  shows "(subProp userConfig ''baseline'' ''browserslist'' = None \<longrightarrow>
            loadConfig env configCache workspaceRoot (Some path)
              = Inr (mergeWithDefaults userConfig, configCache(path \<mapsto> mergeWithDefaults userConfig))
            \<and> baseline_target (mergeWithDefaults userConfig) = Custom
            \<and> baseline_browserslist (mergeWithDefaults userConfig) = None)
     \<and> (subProp userConfig ''baseline'' ''browserslist'' = Some (JArray []) \<longrightarrow>
            loadConfig env configCache workspaceRoot (Some path)
              = (if browserslist env [] = None then Inl InvalidBrowserslist
                 else Inr (mergeWithDefaults userConfig,
                           configCache(path \<mapsto> mergeWithDefaults userConfig))))"
proof -
  have load: "loadConfig env configCache workspaceRoot (Some path) =
           (let mergedConfig = mergeWithDefaults userConfig in
            if baseline_target mergedConfig = Custom
               \<and> (case baseline_browserslist mergedConfig of
                     Some browsers \<Rightarrow> browserslist env browsers = None
                   | None \<Rightarrow> False)
            then Inl InvalidBrowserslist
            else Inr (mergedConfig, configCache(path \<mapsto> mergedConfig)))"
    using assms(1-6) by (rule loadConfig_valid)
  note tgt = merged_target [OF assms(7)]
  have missing: "subProp userConfig ''baseline'' ''browserslist'' = None \<longrightarrow>
            loadConfig env configCache workspaceRoot (Some path)
              = Inr (mergeWithDefaults userConfig, configCache(path \<mapsto> mergeWithDefaults userConfig))
            \<and> baseline_target (mergeWithDefaults userConfig) = Custom
            \<and> baseline_browserslist (mergeWithDefaults userConfig) = None"
    using load tgt merged_queries_missing [of userConfig] by (simp add: Let_def)
  have empty: "subProp userConfig ''baseline'' ''browserslist'' = Some (JArray []) \<longrightarrow>
            loadConfig env configCache workspaceRoot (Some path)
              = (if browserslist env [] = None then Inl InvalidBrowserslist
                 else Inr (mergeWithDefaults userConfig,
                           configCache(path \<mapsto> mergeWithDefaults userConfig)))"
    using load tgt merged_queries_empty [of userConfig] by (simp add: Let_def)
  from missing empty show ?thesis by blast
qed

theorem custom_target_queries_optional_witness:
  "''/work/baseline.config.json'' \<noteq> []
   \<and> \<not> endsWith ''/work/baseline.config.json'' ''package.json''
   \<and> validateConfigSchema custom_without_queries
   \<and> validateConfigSchema custom_empty_queries
   \<and> subProp custom_without_queries ''baseline'' ''target'' = Some (JString ''custom'')
   \<and> subProp custom_without_queries ''baseline'' ''browserslist'' = None
   \<and> subProp custom_empty_queries ''baseline'' ''browserslist'' = Some (JArray [])
   \<and> \<not> isl (loadConfig (config_env custom_without_queries) Map.empty None
               (Some ''/work/baseline.config.json''))
   \<and> \<not> isl (loadConfig (config_env custom_empty_queries) Map.empty None
               (Some ''/work/baseline.config.json''))"
proof -
  let ?p = "''/work/baseline.config.json''"
  have p1: "?p \<noteq> []" and p2: "\<not> endsWith ?p ''package.json''"
    using config_path_plain by simp_all
  have c: "(Map.empty :: ConfigCache) ?p = None" by simp
  have r1: "readFileSync (config_env custom_without_queries) ?p = Some ''{...}''"
    and j1: "jsonParse (config_env custom_without_queries) ''{...}'' = Some custom_without_queries"
    and r2: "readFileSync (config_env custom_empty_queries) ?p = Some ''{...}''"
    and j2: "jsonParse (config_env custom_empty_queries) ''{...}'' = Some custom_empty_queries"
    and b2: "browserslist (config_env custom_empty_queries) [] = Some []"
    using config_env_reads by simp_all
  have t1: "subProp custom_without_queries ''baseline'' ''target'' = Some (JString ''custom'')"
    and q1: "subProp custom_without_queries ''baseline'' ''browserslist'' = None"
    and t2: "subProp custom_empty_queries ''baseline'' ''target'' = Some (JString ''custom'')"
    and q2: "subProp custom_empty_queries ''baseline'' ''browserslist'' = Some (JArray [])"
    and v2: "validateConfigSchema custom_empty_queries"
    using custom_targets by simp_all
  from custom_target_queries_optional [of ?p "Map.empty" "config_env custom_without_queries"
      "''{...}''" custom_without_queries None, OF p1 p2 c r1 j1 without_queries_valid t1]
  have a: "\<not> isl (loadConfig (config_env custom_without_queries) Map.empty None (Some ?p))"
    using q1 by simp
  from custom_target_queries_optional [of ?p "Map.empty" "config_env custom_empty_queries"
      "''{...}''" custom_empty_queries None, OF p1 p2 c r2 j2 v2 t2]
  have b: "\<not> isl (loadConfig (config_env custom_empty_queries) Map.empty None (Some ?p))"
    using q2 b2 by simp
  from p1 p2 without_queries_valid v2 t1 q1 q2 a b show ?thesis by blast
qed

subsection \<open>The end-to-end example under the default target\<close>

text \<open>
  Claim C3 says that the text \<open>const x = a?.b ?? c;\<close> under the default configuration
  yields two diagnostics, \<open>optional-chaining\<close> and \<open>nullish-coalescing\<close>, both not
  baseline and both with severity \<open>warning\<close>. The code does otherwise. With no
  configuration file the target is \<open>2024\<close> and the default severity \<open>warning\<close>; the
  script matcher returns the two occurrences (the logical expression first, both at the
  start of their node, line 1 and column 10); both ids have the status \<open>newly\<close> since
  2022-03 and no per-engine data, so the year comparison 2022 \<le> 2024 makes them baseline, and
  the aggregator returns the empty list.
\<close>

theorem default_target_drops_chain_example:
  "\<not> isl (loadConfig chain_env Map.empty None None)
   \<and> baseline_target (fst (projr (loadConfig chain_env Map.empty None None))) = Y2024
   \<and> severity_default (fst (projr (loadConfig chain_env Map.empty None None))) = Warning
   \<and> map (\<lambda>r. (feature r, line r, column r, severity r))
        (parseJavaScript (babelParse chain_env) (doc_content chain_doc) (doc_filename chain_doc))
       = [(''nullish-coalescing'', 1, 10, Warning), (''optional-chaining'', 1, 10, Warning)]
   \<and> isFeatureBaseline (browserslist chain_env) \<lparr> year = Y2024, customBrowserslist = None \<rparr>
        ''optional-chaining''
   \<and> isFeatureBaseline (browserslist chain_env) \<lparr> year = Y2024, customBrowserslist = None \<rparr>
        ''nullish-coalescing''
   \<and> checkCompatibility chain_env (Documents [chain_doc]) None None = Inr []"
  using chain_default_config chain_occurrences chain_output
    chain_features_baseline [of "\<lparr> year = Y2024, customBrowserslist = None \<rparr>" "browserslist chain_env"]
  by simp

subsection \<open>The reach of a suppression marker\<close>

text \<open>
  Claim C4 says that a marker behind the content of a line suppresses that line only, and
  that a marker alone on a line suppresses the construct on the next line and nothing
  else. The code does otherwise, since \<open>isLineIgnored\<close> also accepts a line whose
  predecessor is in the set. For \<open>a?.b; // baseline-buddy-ignore\<close> followed by \<open>c?.d;\<close>
  the set is \<open>{1}\<close>, line 2 counts as ignored, and the parser returns nothing, where
  without the marker it returns an occurrence for each line. For a marker alone on line 1
  followed by three statements the set is \<open>{1, 2}\<close>, line 3 counts as ignored as well, and
  only the occurrence on line 4 is returned. The stylesheet parser behaves in the same way.
\<close>

theorem marker_suppresses_following_line:
  "parseIgnoreComments_js inline_marker_text = {1}
   \<and> isLineIgnored 2 (parseIgnoreComments_js inline_marker_text)
   \<and> map (\<lambda>r. (feature r, line r))
        (parseJavaScript (\<lambda>c. Some (program [statement 1 ''a'' ''b'', statement 2 ''c'' ''d'']))
           ''a?.b;\<newline>c?.d;'' ''app.js'')
       = [(''optional-chaining'', 1), (''optional-chaining'', 2)]
   \<and> parseJavaScript (\<lambda>c. Some (program [statement 1 ''a'' ''b'', statement 2 ''c'' ''d'']))
        inline_marker_text ''app.js'' = []
   \<and> parseIgnoreComments_js own_line_marker_text = {1, 2}
   \<and> isLineIgnored 3 (parseIgnoreComments_js own_line_marker_text)
   \<and> map (\<lambda>r. (feature r, line r))
        (parseJavaScript
           (\<lambda>c. Some (program [statement 2 ''a'' ''b'', statement 3 ''c'' ''d'', statement 4 ''e'' ''f'']))
           own_line_marker_text ''app.js'')
       = [(''optional-chaining'', 4)]
   \<and> parseCSS (\<lambda>c f. Some [CssRule (Some (1, 1)) ''.a:has(.b)'' [],
                             CssComment (Some (1, 15)),
                             CssRule (Some (2, 1)) ''.c:has(.d)'' []])
        inline_marker_css ''app.css'' = []"
  using marker_sets marker_results by (simp add: isLineIgnored_def)

end
